theory Spec2Isabelle
  imports Main
begin

section \<open>Python values, exceptions and outcomes\<close>

text \<open>
  The controller is a Python program: the attributes of its process-wide \<open>config\<close> object
  hold dynamically typed values, and a forwarded descriptor is whatever \<open>json.loads\<close>
  returns. The values modelled are \<open>None\<close>, booleans, integers, strings (code points below
  256), dictionaries with string keys and callables; floats and lists are left out.
  A callable is either the closure \<open>log\<close> that \<open>run_forwarded_command\<close> builds around its
  web socket, or some other function identified by a number.
\<close>

type_synonym websocket = nat

datatype callable = ForwardLog websocket | OtherCallable nat

datatype pyval =
    PNone
  | PBool bool
  | PInt int
  | PStr string
  | PDict "(string \<times> pyval) list"
  | PFun callable

text \<open>
  Exceptions, as far as the handlers of the program tell them apart. All of them are
  subclasses of \<open>Exception\<close>; task cancellation and signals are outside the model.
  \<open>TimeoutError\<close> is \<open>asyncio.exceptions.TimeoutError\<close>.
\<close>

datatype exn =
    BleakError string
  | TimeoutError
  | OSError
  | TypeError
  | ValueError
  | AttributeError
  | OtherException

text \<open>
  An awaited call returns, raises, or never completes (\<open>Blocked\<close>: the code after it,
  \<open>finally\<close> blocks included, is never run).
\<close>

datatype 'a outcome = Returned 'a | Raised exn | Blocked

subsection \<open>Operations of the language used by the program\<close>

text \<open>Truth value of an object, as tested by \<open>if x\<close> and \<open>not x\<close>.\<close>

fun truthy :: "pyval \<Rightarrow> bool" where
  "truthy PNone = False"
| "truthy (PBool b) = b"
| "truthy (PInt i) = (i \<noteq> 0)"
| "truthy (PStr s) = (s \<noteq> [])"
| "truthy (PDict kvs) = (kvs \<noteq> [])"
| "truthy (PFun f) = True"

text \<open>\<open>t in s\<close> for two strings: \<open>t\<close> occurs in \<open>s\<close> as a contiguous run.\<close>

fun str_contains :: "string \<Rightarrow> string \<Rightarrow> bool" where
  "str_contains [] t = (t = [])"
| "str_contains (c # cs) t = (take (length t) (c # cs) = t \<or> str_contains cs t)"

text \<open>
  \<open>x in container\<close>. A dictionary is searched by key and needs a hashable \<open>x\<close>; a string
  accepts only a string on the left; the other values are not containers.
\<close>

fun py_in :: "pyval \<Rightarrow> pyval \<Rightarrow> bool outcome" where
  "py_in (PDict k) (PDict kvs) = Raised TypeError"
| "py_in (PStr t) (PDict kvs) = Returned (t \<in> set (map fst kvs))"
| "py_in x (PDict kvs) = Returned False"
| "py_in (PStr t) (PStr s) = Returned (str_contains s t)"
| "py_in x (PStr s) = Raised TypeError"
| "py_in x c = Raised TypeError"

text \<open>\<open>container.get(x)\<close>: only a dictionary has the method.\<close>

fun py_get :: "pyval \<Rightarrow> pyval \<Rightarrow> pyval outcome" where
  "py_get (PDict kvs) (PDict k) = Raised TypeError"
| "py_get (PDict kvs) (PStr t) = Returned (case map_of kvs t of Some v \<Rightarrow> v | None \<Rightarrow> PNone)"
| "py_get (PDict kvs) x = Returned PNone"
| "py_get c x = Raised AttributeError"

text \<open>
  \<open>str.isnumeric\<close> on code points below 256: the string is not empty and every character
  is a decimal digit or one of the superscripts and fractions U+00B2, U+00B3, U+00B9,
  U+00BC, U+00BD, U+00BE.
\<close>

definition is_digit :: "char \<Rightarrow> bool" where
  "is_digit c = ((48::nat) \<le> of_char c \<and> of_char c \<le> (57::nat))"

definition numeric_char :: "char \<Rightarrow> bool" where
  "numeric_char c = (is_digit c \<or> c \<in> set [CHR 0xB2, CHR 0xB3, CHR 0xB9, CHR 0xBC, CHR 0xBD, CHR 0xBE])"

definition isnumeric :: "string \<Rightarrow> bool" where
  "isnumeric s = (s \<noteq> [] \<and> list_all numeric_char s)"

text \<open>
  \<open>str(x).isnumeric()\<close>: the text of a string is the string; of an integer its decimal
  digits after a minus sign when negative; the texts of \<open>None\<close>, booleans, dictionaries and
  functions hold letters or brackets.
\<close>

fun str_isnumeric :: "pyval \<Rightarrow> bool" where
  "str_isnumeric (PStr s) = isnumeric s"
| "str_isnumeric (PInt i) = (0 \<le> i)"
| "str_isnumeric x = False"

text \<open>
  \<open>int(x)\<close>: a string of decimal digits is read in base ten; any other string raises
  \<open>ValueError\<close> (signs, blanks and underscores are not considered, the caller has checked
  \<open>isnumeric\<close>); the interpreter's limit on the number of digits is not modelled.
\<close>

definition digit_val :: "char \<Rightarrow> int" where
  "digit_val c = int (of_char c) - 48"

definition read_decimal :: "string \<Rightarrow> int" where
  "read_decimal s = foldl (\<lambda>acc c. 10 * acc + digit_val c) 0 s"

fun py_int :: "pyval \<Rightarrow> int outcome" where
  "py_int (PInt i) = Returned i"
| "py_int (PBool b) = Returned (if b then 1 else 0)"
| "py_int (PStr s) = (if s \<noteq> [] \<and> list_all is_digit s then Returned (read_decimal s) else Raised ValueError)"
| "py_int x = Raised TypeError"

section \<open>Configuration\<close>

text \<open>
  The class \<open>Config\<close> is declared in \<open>config.py\<close>; the program only reads and writes
  attributes of its single instance \<open>config\<close>. An attribute is looked up in the instance
  dictionary (\<open>config.__dict__\<close>) and then among the class attributes. \<open>Config\<close> is taken
  to be a plain class, without slots, properties or a \<open>__setattr__\<close> of its own. Storing
  an attribute writes the instance dictionary (\<open>store_attr\<close>). \<open>setattr\<close> stores under every
  name but three: \<open>__dict__\<close> replaces the whole instance dictionary and accepts only a
  dictionary, \<open>__class__\<close> accepts only a class, which none of the modelled values is, and
  \<open>__weakref__\<close> cannot be written. The program itself reads attributes of ordinary names
  only.
\<close>

record config =
  inst :: "string \<rightharpoonup> pyval"
  cls :: "string \<rightharpoonup> pyval"

definition getattr :: "config \<Rightarrow> string \<Rightarrow> pyval option" where
  "getattr c k = (case inst c k of Some v \<Rightarrow> Some v | None \<Rightarrow> cls c k)"

definition store_attr :: "config \<Rightarrow> string \<Rightarrow> pyval \<Rightarrow> config" where
  "store_attr c k v = c\<lparr>inst := (inst c)(k \<mapsto> v)\<rparr>"

definition setattr :: "config \<Rightarrow> string \<Rightarrow> pyval \<Rightarrow> config outcome" where
  "setattr c k v =
     (if k = ''__dict__'' then
        (case v of PDict kvs \<Rightarrow> Returned (c\<lparr>inst := map_of kvs\<rparr>) | _ \<Rightarrow> Raised TypeError)
      else if k = ''__class__'' then Raised TypeError
      else if k = ''__weakref__'' then Raised AttributeError
      else Returned (store_attr c k v))"

text \<open>
  Modelled from the spec: the enumeration \<open>Commands\<close> of \<open>config.py\<close>. Its members compare
  equal to the strings a descriptor carries (the spec's scenario sends
  \<open>{"command":"move_to", ...}\<close> and the server then moves), so each member is the string of
  its name; no command is \<open>None\<close>.
\<close>

definition Commands_move_to :: pyval where "Commands_move_to = PStr ''move_to''"
definition Commands_watch :: pyval where "Commands_watch = PStr ''watch''"
definition Commands_scan_adapter :: pyval where "Commands_scan_adapter = PStr ''scan_adapter''"
definition Commands_server :: pyval where "Commands_server = PStr ''server''"
definition Commands_tcp_server :: pyval where "Commands_tcp_server = PStr ''tcp_server''"

definition ALLOWED_KEYS :: "string list" where
  "ALLOWED_KEYS = [''command'', ''move_to'', ''quiet'']"

definition ALLOWED_COMMANDS :: "pyval list" where
  "ALLOWED_COMMANDS = [PNone, Commands_move_to, Commands_watch]"

section \<open>Collaborators and the observable trace\<close>

text \<open>
  A discovered device as the scanner reports it, the handle of the device link
  (\<open>BleakClient\<close>, whose disconnected callback is always \<open>disconnect_callback\<close>), and a
  \<open>Height\<close> object, of which the program reads \<open>value\<close> and prints \<open>human\<close>.
\<close>

datatype device = BLEDevice (device_address: string) (device_name: string)

record client =
  address :: pyval
  adapter :: pyval

record height =
  hvalue :: int

type_synonym speed = int

text \<open>The texts the program prints or logs, with the values they are formatted from.\<close>

datatype message =
    Scanning
  | FoundDevices nat pyval
  | DeviceLine device
  | LostConnection pyval
  | Connecting
  | Connected pyval
  | WatchingForChanges
  | MovingToFavourite pyval height
  | MovingToHeight pyval
  | NotAValidHeight pyval
  | NothingToDo
  | FinalHeight height height
  | TcpServerListening
  | ReceivedCommand
  | ServerListening
  | CommandMustBeOneOf "pyval list"
  | ReceivedText string
  | ConnectingFailed
  | ExceptionText exn
  | Traceback
  | ConnectingFailedTimedOut
  | SomethingUnexpected
  | Disconnecting
  | Disconnected

datatype level = Info | Warn | Error

datatype task = ConnectTask client | SendStrTask websocket message

text \<open>
  Everything the program does to the outside is recorded, in order: what it prints, what it
  logs through \<open>config\<close>, the calls it makes on its collaborators (recorded when the call is
  made, whatever its outcome), and the background tasks it creates.
\<close>

datatype event =
    Print message
  | Log level message
  | CreateTask task
  | ScannerDiscover pyval pyval
  | NewBleakClient pyval pyval
  | ClientConnect client pyval
  | ClientDisconnect client
  | DeskInitialise client
  | DeskGetHeightSpeed client
  | DeskLogState height
  | DeskWatchHeightSpeed client
  | DeskMoveTo client height
  | DeskStop client
  | StartServer pyval pyval
  | ServeForever
  | WriterClose
  | RunnerSetup
  | SiteStart pyval pyval
  | AwaitFuture
  | WsPrepare websocket
  | Sleep nat
  | WsClose websocket
  | NewClientSession
  | WsConnect pyval pyval
  | WsSendStr websocket pyval
  | WsReceive websocket
  | SessionClose

record 'w state =
  cfg :: config
  world :: 'w
  trace :: "event list"

type_synonym ('a, 'w) prog = "'w state \<Rightarrow> 'a outcome \<times> 'w state"

definition ret :: "'a \<Rightarrow> ('a, 'w) prog" where
  "ret x s = (Returned x, s)"

definition raise :: "exn \<Rightarrow> ('a, 'w) prog" where
  "raise e s = (Raised e, s)"

text \<open>Sequencing: the rest runs only when the first part returns.\<close>

definition seq :: "('a, 'w) prog \<Rightarrow> ('a \<Rightarrow> ('b, 'w) prog) \<Rightarrow> ('b, 'w) prog" where
  "seq m f s =
     (case m s of
        (Returned x, s1) \<Rightarrow> f x s1
      | (Raised e, s1) \<Rightarrow> (Raised e, s1)
      | (Blocked, s1) \<Rightarrow> (Blocked, s1))"

definition lift :: "'a outcome \<Rightarrow> ('a, 'w) prog" where
  "lift r s = (r, s)"

definition emit :: "event \<Rightarrow> (unit, 'w) prog" where
  "emit ev s = (Returned (), s\<lparr>trace := trace s @ [ev]\<rparr>)"

text \<open>Reading \<open>config.k\<close> raises \<open>AttributeError\<close> when there is no such attribute.\<close>

definition get_attr :: "string \<Rightarrow> (pyval, 'w) prog" where
  "get_attr k s = (case getattr (cfg s) k of Some v \<Rightarrow> (Returned v, s) | None \<Rightarrow> (Raised AttributeError, s))"

text \<open>\<open>setattr(config, k, v)\<close>, and the assignment \<open>config.k = v\<close>.\<close>

definition set_attr :: "string \<Rightarrow> pyval \<Rightarrow> (unit, 'w) prog" where
  "set_attr k v s =
     (case setattr (cfg s) k v of
        Returned c \<Rightarrow> (Returned (), s\<lparr>cfg := c\<rparr>)
      | Raised e \<Rightarrow> (Raised e, s)
      | Blocked \<Rightarrow> (Blocked, s))"

text \<open>A call on a collaborator: the event is recorded and the collaborator moves the world.\<close>

definition ext :: "event \<Rightarrow> ('w \<Rightarrow> 'a outcome \<times> 'w) \<Rightarrow> ('a, 'w) prog" where
  "ext ev op s = (case op (world s) of (r, w) \<Rightarrow> (r, s\<lparr>world := w, trace := trace s @ [ev]\<rparr>))"

text \<open>
  Modelled from the spec: the methods \<open>info\<close>, \<open>warn\<close> and \<open>error\<close> of \<open>Config\<close>
  (\<open>config.py\<close>), which hand a message of their level to the log sink. The call is recorded
  with its level and message.
\<close>

definition config_info :: "message \<Rightarrow> (unit, 'w) prog" where
  "config_info m = emit (Log Info m)"

definition config_warn :: "message \<Rightarrow> (unit, 'w) prog" where
  "config_warn m = emit (Log Warn m)"

definition config_error :: "message \<Rightarrow> (unit, 'w) prog" where
  "config_error m = emit (Log Error m)"

text \<open>
  The collaborators: the transport (\<open>bleak\<close>), the device protocol (\<open>Desk\<close> of \<open>desk.py\<close>
  and \<open>Height\<close> of \<open>util.py\<close>, which may read \<open>config\<close> but get no way to write it), and the
  network libraries. Each is a parameter: given the world it answers and moves the world.
  \<^item> \<open>client_disconnect\<close> also tells whether the transport reported the link drop to the
    client's disconnected callback while the call was awaited;
  \<^item> \<open>new_Height c x\<close> is \<open>Height(x, True)\<close>;
  \<^item> \<open>tcp_requests\<close> and \<open>ws_requests\<close> are the inbound connections a server gets, in
    order (a socket request is what \<open>json.loads\<close> makes of the bytes read), and
    \<open>ws_incoming\<close> the messages a forwarding client is sent; when such a list runs out
    the wait for the next one never completes.
\<close>

datatype ws_msg_type = TEXT | BINARY | PING | PONG | CLOSE | CLOSING | CLOSED | ERROR

text \<open>
  An inbound web socket session: the socket that answers it and the first message the
  server's loop over the socket yields, if any, with its type and what \<open>json.loads\<close> makes
  of its data.
\<close>

record ws_request =
  req_ws :: websocket
  first_msg :: "(ws_msg_type \<times> pyval outcome) option"

record 'w env =
  scanner_discover :: "pyval \<Rightarrow> pyval \<Rightarrow> 'w \<Rightarrow> device list outcome \<times> 'w"
  client_connect :: "client \<Rightarrow> pyval \<Rightarrow> 'w \<Rightarrow> unit outcome \<times> 'w"
  client_is_connected :: "client \<Rightarrow> 'w \<Rightarrow> bool"
  client_disconnect :: "client \<Rightarrow> 'w \<Rightarrow> (bool \<times> unit outcome) \<times> 'w"
  desk_initialise :: "config \<Rightarrow> client \<Rightarrow> 'w \<Rightarrow> unit outcome \<times> 'w"
  desk_get_height_speed :: "config \<Rightarrow> client \<Rightarrow> 'w \<Rightarrow> (height \<times> speed) outcome \<times> 'w"
  desk_log_state :: "config \<Rightarrow> height \<Rightarrow> 'w \<Rightarrow> unit outcome \<times> 'w"
  desk_watch_height_speed :: "config \<Rightarrow> client \<Rightarrow> 'w \<Rightarrow> unit outcome \<times> 'w"
  desk_move_to :: "config \<Rightarrow> client \<Rightarrow> height \<Rightarrow> 'w \<Rightarrow> unit outcome \<times> 'w"
  desk_stop :: "config \<Rightarrow> client \<Rightarrow> 'w \<Rightarrow> unit outcome \<times> 'w"
  new_Height :: "config \<Rightarrow> pyval \<Rightarrow> height outcome"
  start_server :: "pyval \<Rightarrow> pyval \<Rightarrow> 'w \<Rightarrow> unit outcome \<times> 'w"
  tcp_requests :: "'w \<Rightarrow> pyval outcome list"
  runner_setup :: "'w \<Rightarrow> unit outcome \<times> 'w"
  site_start :: "pyval \<Rightarrow> pyval \<Rightarrow> 'w \<Rightarrow> unit outcome \<times> 'w"
  ws_requests :: "'w \<Rightarrow> ws_request list"
  ws_prepare :: "websocket \<Rightarrow> 'w \<Rightarrow> unit outcome \<times> 'w"
  ws_close :: "websocket \<Rightarrow> 'w \<Rightarrow> unit outcome \<times> 'w"
  ws_connect :: "pyval \<Rightarrow> pyval \<Rightarrow> 'w \<Rightarrow> websocket outcome \<times> 'w"
  ws_send_str :: "websocket \<Rightarrow> pyval \<Rightarrow> 'w \<Rightarrow> unit outcome \<times> 'w"
  ws_incoming :: "websocket \<Rightarrow> 'w \<Rightarrow> (ws_msg_type \<times> string) list"
  session_close :: "'w \<Rightarrow> unit outcome \<times> 'w"

section \<open>Scanning\<close>

text \<open>The loop \<open>for device in devices: print(device)\<close>.\<close>

fun print_devices :: "device list \<Rightarrow> (unit, 'w) prog" where
  "print_devices [] = ret ()"
| "print_devices (d # ds) = seq (emit (Print (DeviceLine d))) (\<lambda>_. print_devices ds)"

definition scan :: "'w env \<Rightarrow> (device list, 'w) prog" where
  "scan env =
     seq (emit (Print Scanning)) (\<lambda>_.
     seq (get_attr ''adapter_name'') (\<lambda>adapter_name.
     seq (get_attr ''scan_timeout'') (\<lambda>scan_timeout.
     seq (ext (ScannerDiscover adapter_name scan_timeout)
              (scanner_discover env adapter_name scan_timeout)) (\<lambda>devices.
     seq (get_attr ''adapter_name'') (\<lambda>adapter_name.
     seq (emit (Print (FoundDevices (length devices) adapter_name))) (\<lambda>_.
     seq (print_devices devices) (\<lambda>_.
     ret devices)))))))"

section \<open>Connection lifecycle\<close>

text \<open>
  \<open>disconnect_callback\<close> runs when the transport reports that the link dropped. The
  reconnect is only scheduled (\<open>asyncio.create_task\<close>): the task runs later, on its own.
\<close>

definition disconnect_callback :: "client \<Rightarrow> (unit, 'w) prog" where
  "disconnect_callback client =
     seq (get_attr ''disconnecting'') (\<lambda>disconnecting.
     if \<not> truthy disconnecting then
       seq (emit (Print (LostConnection (address client)))) (\<lambda>_.
       emit (CreateTask (ConnectTask client)))
     else ret ())"

definition new_BleakClient :: "pyval \<Rightarrow> pyval \<Rightarrow> (client, 'w) prog" where
  "new_BleakClient mac_address adapter_name =
     seq (emit (NewBleakClient mac_address adapter_name)) (\<lambda>_.
     ret \<lparr>address = mac_address, adapter = adapter_name\<rparr>)"

definition connect :: "'w env \<Rightarrow> client option \<Rightarrow> (client, 'w) prog" where
  "connect env client0 =
     seq (emit (Print Connecting)) (\<lambda>_.
     seq (case client0 of
            None \<Rightarrow>
              seq (get_attr ''mac_address'') (\<lambda>mac_address.
              seq (get_attr ''adapter_name'') (\<lambda>adapter_name.
              new_BleakClient mac_address adapter_name))
          | Some c \<Rightarrow> ret c) (\<lambda>client.
     seq (get_attr ''connection_timeout'') (\<lambda>connection_timeout.
     seq (ext (ClientConnect client connection_timeout)
              (client_connect env client connection_timeout)) (\<lambda>_.
     seq (get_attr ''mac_address'') (\<lambda>mac_address.
     seq (emit (Print (Connected mac_address))) (\<lambda>_.
     seq (\<lambda>s. ext (DeskInitialise client) (desk_initialise env (cfg s) client) s) (\<lambda>_.
     ret client)))))))"

text \<open>
  The transport-level \<open>client.disconnect()\<close>. When the transport reports the drop during
  the call, the callback runs in the state of that moment; what the callback raises stays
  with the event loop.
\<close>

definition Client_disconnect :: "'w env \<Rightarrow> client \<Rightarrow> (unit, 'w) prog" where
  "Client_disconnect env client s =
     (case client_disconnect env client (world s) of
        ((reported, r), w) \<Rightarrow>
          (let s1 = s\<lparr>world := w, trace := trace s @ [ClientDisconnect client]\<rparr>;
               s2 = (if reported then snd (disconnect_callback client s1) else s1)
           in (r, s2)))"

definition disconnect :: "'w env \<Rightarrow> client \<Rightarrow> (unit, 'w) prog" where
  "disconnect env client s =
     (if client_is_connected env client (world s) then
        seq (set_attr ''disconnecting'' (PBool True)) (\<lambda>_.
        Client_disconnect env client) s
      else ret () s)"

section \<open>Running a command\<close>

definition Desk_get_height_speed :: "'w env \<Rightarrow> client \<Rightarrow> (height \<times> speed, 'w) prog" where
  "Desk_get_height_speed env client s =
     ext (DeskGetHeightSpeed client) (desk_get_height_speed env (cfg s) client) s"

definition Desk_log_state :: "'w env \<Rightarrow> height \<Rightarrow> (unit, 'w) prog" where
  "Desk_log_state env h s = ext (DeskLogState h) (desk_log_state env (cfg s) h) s"

definition Desk_watch_height_speed :: "'w env \<Rightarrow> client \<Rightarrow> (unit, 'w) prog" where
  "Desk_watch_height_speed env client s =
     ext (DeskWatchHeightSpeed client) (desk_watch_height_speed env (cfg s) client) s"

definition Desk_move_to :: "'w env \<Rightarrow> client \<Rightarrow> height \<Rightarrow> (unit, 'w) prog" where
  "Desk_move_to env client target s =
     ext (DeskMoveTo client target) (desk_move_to env (cfg s) client target) s"

definition Desk_stop :: "'w env \<Rightarrow> client \<Rightarrow> (unit, 'w) prog" where
  "Desk_stop env client s = ext (DeskStop client) (desk_stop env (cfg s) client) s"

definition Height :: "'w env \<Rightarrow> pyval \<Rightarrow> (height, 'w) prog" where
  "Height env x s = lift (new_Height env (cfg s) x) s"

text \<open>
  The end of \<open>run_command\<close> once \<open>target\<close> is set: the test against the height read at
  the start, the move, and the report under \<open>if target\<close> (a \<open>Height\<close> object is true).
\<close>

definition move_and_report :: "'w env \<Rightarrow> client \<Rightarrow> height \<Rightarrow> height \<Rightarrow> (unit, 'w) prog" where
  "move_and_report env client initial_height target =
     (if hvalue target = hvalue initial_height then
        config_warn NothingToDo
      else
        seq (Desk_move_to env client target) (\<lambda>_.
        seq (Desk_get_height_speed env client) (\<lambda>(final_height, _).
        config_info (FinalHeight final_height target))))"

definition run_command :: "'w env \<Rightarrow> client \<Rightarrow> (unit, 'w) prog" where
  "run_command env client =
     seq (Desk_get_height_speed env client) (\<lambda>(initial_height, _).
     seq (Desk_log_state env initial_height) (\<lambda>_.
     seq (get_attr ''command'') (\<lambda>command.
     if command = Commands_watch then
       seq (config_info WatchingForChanges) (\<lambda>_.
       Desk_watch_height_speed env client)
     else if command = Commands_move_to then
       seq (get_attr ''move_to'') (\<lambda>move_to.
       seq (get_attr ''favourites'') (\<lambda>favourites.
       seq (lift (py_in move_to favourites)) (\<lambda>is_favourite.
       if is_favourite then
         seq (lift (py_get favourites move_to)) (\<lambda>favourite.
         seq (Height env favourite) (\<lambda>target.
         seq (config_info (MovingToFavourite move_to target)) (\<lambda>_.
         move_and_report env client initial_height target)))
       else if str_isnumeric move_to then
         seq (lift (py_int move_to)) (\<lambda>n.
         seq (Height env (PInt n)) (\<lambda>target.
         seq (config_info (MovingToHeight move_to)) (\<lambda>_.
         move_and_report env client initial_height target)))
       else
         config_error (NotAValidHeight move_to))))
     else ret ())))"

section \<open>Forwarding servers\<close>

text \<open>
  \<open>for key in forwarded_config: setattr(config, key, forwarded_config[key])\<close>. A
  dictionary holds each key once, so the loop runs over its items, and it stops at the
  first \<open>setattr\<close> that raises. Iterating a string gives
  its characters, and indexing the string by one of them raises; the other values cannot
  be iterated.
\<close>

fun set_items :: "(string \<times> pyval) list \<Rightarrow> (unit, 'w) prog" where
  "set_items [] = ret ()"
| "set_items ((key, v) # kvs) = seq (set_attr key v) (\<lambda>_. set_items kvs)"

fun apply_forwarded :: "pyval \<Rightarrow> (unit, 'w) prog" where
  "apply_forwarded (PDict kvs) = set_items kvs"
| "apply_forwarded (PStr s) = (if s = [] then ret () else raise TypeError)"
| "apply_forwarded x = raise TypeError"

definition run_tcp_forwarded_command :: "'w env \<Rightarrow> client \<Rightarrow> pyval outcome \<Rightarrow> (unit, 'w) prog" where
  "run_tcp_forwarded_command env client request =
     seq (emit (Print ReceivedCommand)) (\<lambda>_.
     seq (lift request) (\<lambda>forwarded_config.
     seq (apply_forwarded forwarded_config) (\<lambda>_.
     seq (run_command env client) (\<lambda>_.
     emit WriterClose))))"

text \<open>
  A connection's handler runs as the server's own task: what it raises is not raised in
  the server. Connections are taken one after the other (overlapping handlers are not
  modelled), and \<open>serve_forever\<close> itself never returns.
\<close>

fun serve_tcp :: "'w env \<Rightarrow> client \<Rightarrow> pyval outcome list \<Rightarrow> (unit, 'w) prog" where
  "serve_tcp env client [] s = (Blocked, s)"
| "serve_tcp env client (request # rest) s =
     (case run_tcp_forwarded_command env client request s of
        (Blocked, s1) \<Rightarrow> (Blocked, s1)
      | (_, s1) \<Rightarrow> serve_tcp env client rest s1)"

definition run_tcp_server :: "'w env \<Rightarrow> client \<Rightarrow> (unit, 'w) prog" where
  "run_tcp_server env client =
     seq (get_attr ''server_address'') (\<lambda>server_address.
     seq (get_attr ''server_port'') (\<lambda>server_port.
     seq (ext (StartServer server_address server_port)
              (start_server env server_address server_port)) (\<lambda>_.
     seq (emit (Print TcpServerListening)) (\<lambda>_.
     seq (emit ServeForever) (\<lambda>_.
     (\<lambda>s. serve_tcp env client (tcp_requests env (world s)) s))))))"

text \<open>
  The closure \<open>log\<close> that \<open>run_forwarded_command\<close> defines around its web socket: it prints
  the message and creates the task that sends it as a text frame.
\<close>

definition forward_log :: "websocket \<Rightarrow> message \<Rightarrow> (unit, 'w) prog" where
  "forward_log ws message =
     seq (emit (Print message)) (\<lambda>_.
     emit (CreateTask (SendStrTask ws message)))"

text \<open>
  Calling a value as a log sink, \<open>f(message)\<close>: the closure around a web socket runs its
  body, another function does what the parameter \<open>other\<close> says, and a value that is not a
  function raises \<open>TypeError\<close>.
\<close>

definition call_sink ::
  "(nat \<Rightarrow> message \<Rightarrow> (unit, 'w) prog) \<Rightarrow> pyval \<Rightarrow> message \<Rightarrow> (unit, 'w) prog" where
  "call_sink other f message =
     (case f of
        PFun (ForwardLog ws) \<Rightarrow> forward_log ws message
      | PFun (OtherCallable n) \<Rightarrow> other n message
      | _ \<Rightarrow> raise TypeError)"

definition run_forwarded_command :: "'w env \<Rightarrow> client \<Rightarrow> ws_request \<Rightarrow> (websocket, 'w) prog" where
  "run_forwarded_command env client request =
     (let ws = req_ws request in
     seq (emit (Print ReceivedCommand)) (\<lambda>_.
     seq (set_attr ''log'' (PFun (ForwardLog ws))) (\<lambda>_.
     seq (ext (WsPrepare ws) (ws_prepare env ws)) (\<lambda>_.
     seq (case first_msg request of
            None \<Rightarrow> ret ()
          | Some (msg_type, msg_data) \<Rightarrow>
              if msg_type = TEXT then
                seq (lift msg_data) (\<lambda>forwarded_config.
                seq (apply_forwarded forwarded_config) (\<lambda>_.
                run_command env client))
              else ret ()) (\<lambda>_.
     seq (emit (Sleep 1)) (\<lambda>_.
     seq (ext (WsClose ws) (ws_close env ws)) (\<lambda>_.
     ret ws)))))))"

fun serve_ws :: "'w env \<Rightarrow> client \<Rightarrow> ws_request list \<Rightarrow> (unit, 'w) prog" where
  "serve_ws env client [] s = (Blocked, s)"
| "serve_ws env client (request # rest) s =
     (case run_forwarded_command env client request s of
        (Blocked, s1) \<Rightarrow> (Blocked, s1)
      | (_, s1) \<Rightarrow> serve_ws env client rest s1)"

definition run_server :: "'w env \<Rightarrow> client \<Rightarrow> (unit, 'w) prog" where
  "run_server env client =
     seq (ext RunnerSetup (runner_setup env)) (\<lambda>_.
     seq (get_attr ''server_address'') (\<lambda>server_address.
     seq (get_attr ''server_port'') (\<lambda>server_port.
     seq (ext (SiteStart server_address server_port)
              (site_start env server_address server_port)) (\<lambda>_.
     seq (emit (Print ServerListening)) (\<lambda>_.
     seq (emit AwaitFuture) (\<lambda>_.
     (\<lambda>s. serve_ws env client (ws_requests env (world s)) s)))))))"

section \<open>Forwarding client\<close>

text \<open>
  \<open>json.dumps\<close> writes every modelled value but a function, for which it raises
  \<open>TypeError\<close>; the text sent is identified with the value it encodes.
\<close>

fun serializable :: "pyval \<Rightarrow> bool" where
  "serializable (PDict kvs) = list_all (\<lambda>kv. serializable (snd kv)) kvs"
| "serializable (PFun f) = False"
| "serializable x = True"

definition json_dumps :: "pyval \<Rightarrow> pyval outcome" where
  "json_dumps x = (if serializable x then Returned x else Raised TypeError)"

text \<open>
  \<open>{key: config_dict[key] for key in ALLOWED_KEYS if key in config_dict}\<close>, where
  \<open>config_dict\<close> is the instance dictionary.
\<close>

definition forwarded_config_of :: "config \<Rightarrow> (string \<times> pyval) list" where
  "forwarded_config_of c =
     List.map_filter (\<lambda>key. case inst c key of Some v \<Rightarrow> Some (key, v) | None \<Rightarrow> None) ALLOWED_KEYS"

text \<open>
  The loop \<open>while True: msg = await ws.receive() ...\<close> over the messages that arrive: a text
  is printed, \<open>closed\<close> or \<open>error\<close> ends the loop, anything else is skipped.
\<close>

fun receive_loop :: "websocket \<Rightarrow> (ws_msg_type \<times> string) list \<Rightarrow> (unit, 'w) prog" where
  "receive_loop ws [] = seq (emit (WsReceive ws)) (\<lambda>_. lift Blocked)"
| "receive_loop ws ((msg_type, msg_data) # rest) =
     seq (emit (WsReceive ws)) (\<lambda>_.
     if msg_type = TEXT then
       seq (emit (Print (ReceivedText msg_data))) (\<lambda>_.
       receive_loop ws rest)
     else if msg_type \<in> set [CLOSED, ERROR] then ret ()
     else receive_loop ws rest)"

definition forward_command :: "'w env \<Rightarrow> (unit, 'w) prog" where
  "forward_command env =
     seq (get_attr ''command'') (\<lambda>command.
     if command \<notin> set ALLOWED_COMMANDS then
       emit (Print (CommandMustBeOneOf ALLOWED_COMMANDS))
     else
       (\<lambda>s. (let forwarded_config = forwarded_config_of (cfg s) in
       seq (emit NewClientSession) (\<lambda>_.
       seq (get_attr ''server_address'') (\<lambda>server_address.
       seq (get_attr ''server_port'') (\<lambda>server_port.
       seq (ext (WsConnect server_address server_port)
                (ws_connect env server_address server_port)) (\<lambda>ws.
       seq (lift (json_dumps (PDict forwarded_config))) (\<lambda>text.
       seq (ext (WsSendStr ws text) (ws_send_str env ws text)) (\<lambda>_.
       seq (\<lambda>s1. receive_loop ws (ws_incoming env ws (world s1)) s1) (\<lambda>_.
       seq (ext (WsClose ws) (ws_close env ws)) (\<lambda>_.
       ext SessionClose (session_close env)))))))))) s))"

section \<open>Session supervisor\<close>

text \<open>
  The first part of the \<open>try\<close> block of \<open>manage\<close>, while the local variable \<open>client\<close> is
  still \<open>None\<close>: \<open>Inl code\<close> when a \<open>return code\<close> was executed, \<open>Inr client\<close> when \<open>connect\<close>
  returned and its result was assigned. \<open>str(e)\<close> of a \<open>BleakError\<close> is its message.
  \<open>asyncio.exceptions.TimeoutError\<close> is taken as a class of its own here and in the
  handlers of \<open>manage\<close>.
\<close>

definition connect_step :: "'w env \<Rightarrow> (int + client, 'w) prog" where
  "connect_step env =
     seq (get_attr ''forward'') (\<lambda>forward.
     if truthy forward then
       seq (forward_command env) (\<lambda>_. ret (Inl 0))
     else
       seq (get_attr ''command'') (\<lambda>command.
       if command = Commands_scan_adapter then
         seq (scan env) (\<lambda>_. ret (Inl 0))
       else
         (\<lambda>s. case connect env None s of
            (Returned client, s1) \<Rightarrow> (Returned (Inr client), s1)
          | (Raised (BleakError m), s1) \<Rightarrow>
              seq (emit (Print ConnectingFailed)) (\<lambda>_.
              seq (if str_contains m ''was not found''
                   then emit (Print (ExceptionText (BleakError m)))
                   else emit (Print Traceback)) (\<lambda>_.
              ret (Inl 1))) s1
          | (Raised TimeoutError, s1) \<Rightarrow>
              seq (emit (Print ConnectingFailedTimedOut)) (\<lambda>_.
              ret (Inl 1)) s1
          | (Raised e, s1) \<Rightarrow> (Raised e, s1)
          | (Blocked, s1) \<Rightarrow> (Blocked, s1))))"

text \<open>The rest of the \<open>try\<close> block, with \<open>client\<close> set.\<close>

definition dispatch :: "'w env \<Rightarrow> client \<Rightarrow> (int, 'w) prog" where
  "dispatch env client =
     seq (get_attr ''command'') (\<lambda>command.
     seq (if command = Commands_server then run_server env client
          else if command = Commands_tcp_server then run_tcp_server env client
          else run_command env client) (\<lambda>_.
     ret 0))"

text \<open>
  The whole \<open>try\<close> block: how it is left, together with the value of the local variable
  \<open>client\<close> at that moment.
\<close>

definition manage_try :: "'w env \<Rightarrow> 'w state \<Rightarrow> (client option \<times> int outcome) \<times> 'w state" where
  "manage_try env s =
     (case connect_step env s of
        (Returned (Inl code), s1) \<Rightarrow> ((None, Returned code), s1)
      | (Returned (Inr client), s1) \<Rightarrow>
          (case dispatch env client s1 of (r, s2) \<Rightarrow> ((Some client, r), s2))
      | (Raised e, s1) \<Rightarrow> ((None, Raised e), s1)
      | (Blocked, s1) \<Rightarrow> ((None, Blocked), s1))"

text \<open>The clauses \<open>except OSError\<close> and \<open>except Exception\<close>.\<close>

definition manage_except :: "int outcome \<Rightarrow> (int, 'w) prog" where
  "manage_except r =
     (case r of
        Raised OSError \<Rightarrow>
          seq (emit (Print (ExceptionText OSError))) (\<lambda>_. ret 1)
      | Raised e \<Rightarrow>
          seq (emit (Print SomethingUnexpected)) (\<lambda>_.
          seq (emit (Print Traceback)) (\<lambda>_. ret 1))
      | _ \<Rightarrow> lift r)"

text \<open>The body of the \<open>finally\<close> clause under \<open>if client\<close>.\<close>

definition cleanup :: "'w env \<Rightarrow> client \<Rightarrow> (unit, 'w) prog" where
  "cleanup env client =
     seq (emit (Print Disconnecting)) (\<lambda>_.
     seq (Desk_stop env client) (\<lambda>_.
     seq (disconnect env client) (\<lambda>_.
     emit (Print Disconnected))))"

text \<open>
  \<open>manage\<close>: the \<open>finally\<close> clause runs however the block and its handlers were left,
  unless they never finished; what it raises replaces the pending \<open>return\<close>.
\<close>

definition manage :: "'w env \<Rightarrow> (int, 'w) prog" where
  "manage env s =
     (case manage_try env s of
        ((client, r), s1) \<Rightarrow>
          (case manage_except r s1 of
             (Blocked, s2) \<Rightarrow> (Blocked, s2)
           | (r1, s2) \<Rightarrow>
               (case client of
                  None \<Rightarrow> (r1, s2)
                | Some c \<Rightarrow> seq (cleanup env c) (\<lambda>_. lift r1) s2)))"

section \<open>A concrete installation\<close>

text \<open>
  A desk at address \<open>C0:FF:EE:00:00:01\<close> with base height 620 mm and a resolution of a
  tenth of a millimetre, standing at 750 mm; favourites \<open>sit\<close> (750 mm) and \<open>stand\<close>
  (1100 mm). The world is whether the link is up. The transport reports every
  disconnection to the callback, and the scanner sees the desk and a second device.
\<close>

definition desk_device :: device where
  "desk_device = BLEDevice ''C0:FF:EE:00:00:01'' ''Desk 1234''"

definition other_device :: device where
  "other_device = BLEDevice ''AA:BB:CC:00:00:02'' ''Headphones''"

definition class_attributes :: "string \<rightharpoonup> pyval" where
  "class_attributes = map_of
     [(''mac_address'', PNone),
      (''adapter_name'', PStr ''hci0''),
      (''scan_timeout'', PInt 5),
      (''connection_timeout'', PInt 10),
      (''server_address'', PStr ''127.0.0.1''),
      (''server_port'', PInt 9123),
      (''forward'', PBool False),
      (''forever'', PBool False),
      (''favourites'', PDict []),
      (''command'', PNone),
      (''move_to'', PNone),
      (''quiet'', PBool False),
      (''disconnecting'', PBool False),
      (''log'', PFun (OtherCallable 0))]"

definition config0 :: config where
  "config0 = \<lparr>inst = map_of
       [(''mac_address'', PStr ''C0:FF:EE:00:00:01''),
        (''favourites'', PDict [(''sit'', PInt 750), (''stand'', PInt 1100)])],
     cls = class_attributes\<rparr>"

definition desk_client :: client where
  "desk_client = \<lparr>address = PStr ''C0:FF:EE:00:00:01'', adapter = PStr ''hci0''\<rparr>"

definition env0 :: "bool env" where
  "env0 = \<lparr>
     scanner_discover = (\<lambda>adapter_name timeout w. (Returned [desk_device, other_device], w)),
     client_connect = (\<lambda>client timeout w. (Returned (), True)),
     client_is_connected = (\<lambda>client w. w),
     client_disconnect = (\<lambda>client w. ((True, Returned ()), False)),
     desk_initialise = (\<lambda>c client w. (Returned (), w)),
     desk_get_height_speed = (\<lambda>c client w. (Returned (\<lparr>hvalue = 1300\<rparr>, 0), w)),
     desk_log_state = (\<lambda>c h w. (Returned (), w)),
     desk_watch_height_speed = (\<lambda>c client w. (Returned (), w)),
     desk_move_to = (\<lambda>c client target w. (Returned (), w)),
     desk_stop = (\<lambda>c client w. (Returned (), w)),
     new_Height = (\<lambda>c x. case x of PInt i \<Rightarrow> Returned \<lparr>hvalue = (i - 620) * 10\<rparr> | _ \<Rightarrow> Raised TypeError),
     start_server = (\<lambda>server_address server_port w. (Returned (), w)),
     tcp_requests = (\<lambda>w. []),
     runner_setup = (\<lambda>w. (Returned (), w)),
     site_start = (\<lambda>server_address server_port w. (Returned (), w)),
     ws_requests = (\<lambda>w. []),
     ws_prepare = (\<lambda>ws w. (Returned (), w)),
     ws_close = (\<lambda>ws w. (Returned (), w)),
     ws_connect = (\<lambda>server_address server_port w. (Returned 1, w)),
     ws_send_str = (\<lambda>ws text w. (Returned (), w)),
     ws_incoming = (\<lambda>ws w. [(TEXT, ''Height:  750mm''), (CLOSED, [])]),
     session_close = (\<lambda>w. (Returned (), w))\<rparr>"

definition state0 :: "bool state" where
  "state0 = \<lparr>cfg = config0, world = False, trace = []\<rparr>"

definition with_attr :: "string \<Rightarrow> pyval \<Rightarrow> 'w state \<Rightarrow> 'w state" where
  "with_attr k v s = s\<lparr>cfg := store_attr (cfg s) k v\<rparr>"

section \<open>Observations on programs and traces\<close>

text \<open>The reconnect attempts scheduled in a trace.\<close>

fun is_reconnect :: "event \<Rightarrow> bool" where
  "is_reconnect (CreateTask (ConnectTask c)) = True"
| "is_reconnect ev = False"

definition reconnects :: "event list \<Rightarrow> nat" where
  "reconnects evs = length (filter is_reconnect evs)"

text \<open>A program that never writes \<open>config\<close>, and one that only adds to the trace.\<close>

definition keeps_cfg :: "('a, 'w) prog \<Rightarrow> bool" where
  "keeps_cfg m = (\<forall>s. cfg (snd (m s)) = cfg s)"

definition extends_trace :: "('a, 'w) prog \<Rightarrow> bool" where
  "extends_trace m = (\<forall>s. \<exists>evs. trace (snd (m s)) = trace s @ evs)"

text \<open>A program that leaves one attribute of \<open>config\<close> as it reads.\<close>

definition keeps_attr :: "string \<Rightarrow> ('a, 'w) prog \<Rightarrow> bool" where
  "keeps_attr k m = (\<forall>s. getattr (cfg (snd (m s))) k = getattr (cfg s) k)"

text \<open>A web socket request on socket 7 whose one text message is \<open>{"command": null}\<close>.\<close>

definition request7 :: ws_request where
  "request7 = \<lparr>req_ws = 7, first_msg = Some (TEXT, Returned (PDict [(''command'', PNone)]))\<rparr>"

text \<open>The device writes (\<open>Desk.move_to\<close>) and the watch subscriptions in a trace.\<close>

fun is_move_to :: "event \<Rightarrow> bool" where
  "is_move_to (DeskMoveTo c h) = True"
| "is_move_to ev = False"

fun is_watch :: "event \<Rightarrow> bool" where
  "is_watch (DeskWatchHeightSpeed c) = True"
| "is_watch ev = False"

text \<open>
  Two variants of the installation: one where the device handshake fails after the link
  is up, one where the device refuses the stop command.
\<close>

definition env_initialise_fails :: "bool env" where
  "env_initialise_fails =
     env0\<lparr>desk_initialise := (\<lambda>c client w. (Raised (BleakError ''Characteristic was not found''), w))\<rparr>"

definition env_stop_fails :: "bool env" where
  "env_stop_fails = env0\<lparr>desk_stop := (\<lambda>c client w. (Raised (BleakError ''Not connected''), w))\<rparr>"

section \<open>Basic facts\<close>

lemmas prog_defs =
  seq_def ret_def raise_def lift_def emit_def get_attr_def set_attr_def setattr_def ext_def
  config_info_def config_warn_def config_error_def

lemmas fixture_defs =
  state0_def config0_def class_attributes_def env0_def desk_client_def with_attr_def
  desk_device_def other_device_def

lemmas command_defs =
  Commands_move_to_def Commands_watch_def Commands_scan_adapter_def Commands_server_def
  Commands_tcp_server_def

lemmas desk_defs =
  Desk_get_height_speed_def Desk_log_state_def Desk_watch_height_speed_def Desk_move_to_def
  Desk_stop_def Height_def

lemmas session_defs =
  manage_def manage_try_def manage_except_def cleanup_def dispatch_def connect_step_def
  connect_def new_BleakClient_def disconnect_def Client_disconnect_def disconnect_callback_def
  run_command_def move_and_report_def scan_def forward_command_def forwarded_config_of_def
  json_dumps_def ALLOWED_KEYS_def ALLOWED_COMMANDS_def List.map_filter_def

lemma getattr_store_attr:
  "getattr (store_attr c k v) k' = (if k' = k then Some v else getattr c k')"
  by (simp add: getattr_def store_attr_def split: option.splits)

section \<open>Unexpected and deliberate disconnects\<close>

text \<open>
  C3. When the transport reports a link drop, \<open>disconnect_callback\<close> does nothing at all if
  the disconnecting flag is set, and if the flag is not set it prints the loss and
  schedules exactly one reconnect. A drop reported while \<open>disconnect\<close> has the transport
  disconnect a connected client finds the flag set: the only event of \<open>disconnect\<close> is the
  transport call itself, and no reconnect is scheduled.
\<close>

theorem link_drop_reconnect:
  "(getattr (cfg s) ''disconnecting'' = Some d \<and> truthy d \<longrightarrow>
      disconnect_callback client s = (Returned (), s))
   \<and> (getattr (cfg s) ''disconnecting'' = Some d \<and> \<not> truthy d \<longrightarrow>
      disconnect_callback client s =
        (Returned (), s\<lparr>trace := trace s @
           [Print (LostConnection (address client)), CreateTask (ConnectTask client)]\<rparr>)
      \<and> reconnects (trace (snd (disconnect_callback client s))) = reconnects (trace s) + 1)
   \<and> (client_is_connected env client (world s) \<longrightarrow>
      trace (snd (disconnect env client s)) = trace s @ [ClientDisconnect client]
      \<and> reconnects (trace (snd (disconnect env client s))) = reconnects (trace s)
      \<and> getattr (cfg (snd (disconnect env client s))) ''disconnecting'' = Some (PBool True))"
proof (intro conjI impI)
  assume "getattr (cfg s) ''disconnecting'' = Some d \<and> truthy d"
  then show "disconnect_callback client s = (Returned (), s)"
    by (simp add: disconnect_callback_def prog_defs)
next
  assume a: "getattr (cfg s) ''disconnecting'' = Some d \<and> \<not> truthy d"
  then show eq: "disconnect_callback client s =
        (Returned (), s\<lparr>trace := trace s @
           [Print (LostConnection (address client)), CreateTask (ConnectTask client)]\<rparr>)"
    by (simp add: disconnect_callback_def prog_defs)
  show "reconnects (trace (snd (disconnect_callback client s))) = reconnects (trace s) + 1"
    by (simp add: eq reconnects_def)
next
  assume c: "client_is_connected env client (world s)"
  obtain reported r w where d: "client_disconnect env client (world s) = ((reported, r), w)"
    by (metis surj_pair)
  have cb: "disconnect_callback client
              (s\<lparr>cfg := store_attr (cfg s) ''disconnecting'' (PBool True), world := w,
                 trace := trace s @ [ClientDisconnect client]\<rparr>)
            = (Returned (), s\<lparr>cfg := store_attr (cfg s) ''disconnecting'' (PBool True), world := w,
                 trace := trace s @ [ClientDisconnect client]\<rparr>)"
    by (simp add: disconnect_callback_def prog_defs getattr_store_attr)
  have st: "snd (disconnect env client s) =
              s\<lparr>cfg := store_attr (cfg s) ''disconnecting'' (PBool True), world := w,
                trace := trace s @ [ClientDisconnect client]\<rparr>"
    using c d cb by (simp add: disconnect_def Client_disconnect_def prog_defs Let_def)
  show "trace (snd (disconnect env client s)) = trace s @ [ClientDisconnect client]"
    by (simp add: st)
  show "reconnects (trace (snd (disconnect env client s))) = reconnects (trace s)"
    by (simp add: st reconnects_def)
  show "getattr (cfg (snd (disconnect env client s))) ''disconnecting'' = Some (PBool True)"
    by (simp add: st getattr_store_attr)
qed

theorem link_drop_reconnect_witness:
  "getattr (cfg state0) ''disconnecting'' = Some (PBool False) \<and> \<not> truthy (PBool False)
   \<and> reconnects (trace (snd (disconnect_callback desk_client state0))) = 1
   \<and> getattr (cfg (with_attr ''disconnecting'' (PInt 1) state0)) ''disconnecting'' = Some (PInt 1)
   \<and> truthy (PInt 1)
   \<and> disconnect_callback desk_client (with_attr ''disconnecting'' (PInt 1) state0)
       = (Returned (), with_attr ''disconnecting'' (PInt 1) state0)
   \<and> client_is_connected env0 desk_client (world (state0\<lparr>world := True\<rparr>))
   \<and> trace (snd (disconnect env0 desk_client (state0\<lparr>world := True\<rparr>)))
       = [ClientDisconnect desk_client]"
proof -
  have h1: "getattr (cfg state0) ''disconnecting'' = Some (PBool False) \<and> \<not> truthy (PBool False)"
    by (simp add: state0_def config0_def class_attributes_def getattr_def)
  have h2: "getattr (cfg (with_attr ''disconnecting'' (PInt 1) state0)) ''disconnecting'' = Some (PInt 1)
            \<and> truthy (PInt 1)"
    by (simp add: with_attr_def getattr_store_attr)
  have h3: "client_is_connected env0 desk_client (world (state0\<lparr>world := True\<rparr>))"
    by (simp add: env0_def)
  have t0: "trace state0 = []" by (simp add: state0_def)
  show ?thesis
    using h1 h2 h3
      link_drop_reconnect [of state0 "PBool False" desk_client env0]
      link_drop_reconnect [of "with_attr ''disconnecting'' (PInt 1) state0" "PInt 1" desk_client env0]
      link_drop_reconnect [of "state0\<lparr>world := True\<rparr>" d desk_client env0]
    by (simp add: t0 reconnects_def)
qed

section \<open>Programs that leave the configuration alone\<close>

lemma keeps_cfg_prims:
  "keeps_cfg (ret x)" "keeps_cfg (raise e)" "keeps_cfg (lift r)" "keeps_cfg (emit ev)"
  "keeps_cfg (get_attr k)" "keeps_cfg (ext ev op)"
  "keeps_cfg (config_info m)" "keeps_cfg (config_warn m)" "keeps_cfg (config_error m)"
  by (simp_all add: keeps_cfg_def prog_defs split: option.splits prod.splits)

lemma keeps_cfg_seq:
  "keeps_cfg m \<Longrightarrow> (\<And>x. keeps_cfg (f x)) \<Longrightarrow> keeps_cfg (seq m f)"
  unfolding keeps_cfg_def seq_def
proof (intro allI)
  fix s
  assume m: "\<forall>s. cfg (snd (m s)) = cfg s" and f: "\<And>x. \<forall>s. cfg (snd (f x s)) = cfg s"
  obtain r s1 where ms: "m s = (r, s1)" by (metis surj_pair)
  have c1: "cfg s1 = cfg s" using m ms by (metis snd_conv)
  show "cfg (snd (case m s of (Returned x, s1) \<Rightarrow> f x s1 | (Raised e, s1) \<Rightarrow> (Raised e, s1)
                  | (Blocked, s1) \<Rightarrow> (Blocked, s1))) = cfg s"
    using ms c1 f by (cases r) simp_all
qed

lemma keeps_cfg_if:
  "keeps_cfg a \<Longrightarrow> keeps_cfg b \<Longrightarrow> keeps_cfg (if c then a else b)"
  by simp

lemma keeps_cfg_case_prod:
  "(\<And>a b. keeps_cfg (f a b)) \<Longrightarrow> keeps_cfg (case p of (a, b) \<Rightarrow> f a b)"
  by (cases p) simp

lemma keeps_cfg_Desk:
  "keeps_cfg (Desk_get_height_speed env client)"
  "keeps_cfg (Desk_log_state env h)"
  "keeps_cfg (Desk_watch_height_speed env client)"
  "keeps_cfg (Desk_move_to env client target)"
  "keeps_cfg (Desk_stop env client)"
  "keeps_cfg (Height env x)"
  by (simp_all add: keeps_cfg_def Desk_get_height_speed_def Desk_log_state_def
        Desk_watch_height_speed_def Desk_move_to_def Desk_stop_def Height_def
        ext_def lift_def split: prod.splits)

lemmas keeps_cfg_intros =
  keeps_cfg_seq keeps_cfg_if keeps_cfg_case_prod keeps_cfg_prims keeps_cfg_Desk

lemma keeps_cfg_move_and_report:
  "keeps_cfg (move_and_report env client initial_height target)"
  unfolding move_and_report_def by (intro keeps_cfg_intros)

lemma keeps_cfg_run_command: "keeps_cfg (run_command env client)"
  unfolding run_command_def by (intro keeps_cfg_intros keeps_cfg_move_and_report)

lemma keeps_cfg_connect: "keeps_cfg (connect env client0)"
proof -
  have n: "\<And>m a. keeps_cfg (new_BleakClient m a)"
    unfolding new_BleakClient_def by (intro keeps_cfg_intros)
  have d: "keeps_cfg (\<lambda>s. ext (DeskInitialise c) (desk_initialise env (cfg s) c) s)" for c
    by (simp add: keeps_cfg_def ext_def split: prod.splits)
  show ?thesis
    unfolding connect_def
    by (cases client0) (auto intro!: keeps_cfg_intros n d)
qed

section \<open>The disconnecting flag\<close>

text \<open>
  C2, as the code has it. When the client reports itself connected, \<open>disconnect\<close> is the
  transport-level disconnect run in the state where the disconnecting flag already reads
  \<open>True\<close>; when it does not, \<open>disconnect\<close> does nothing. \<open>connect\<close> never writes
  \<open>config\<close>: the flag is after \<open>connect\<close> what it was before, however \<open>connect\<close> ends.
\<close>

theorem disconnect_sets_flag_first:
  "(client_is_connected env client (world s) \<longrightarrow>
      disconnect env client s =
        Client_disconnect env client (s\<lparr>cfg := store_attr (cfg s) ''disconnecting'' (PBool True)\<rparr>)
      \<and> getattr (cfg (s\<lparr>cfg := store_attr (cfg s) ''disconnecting'' (PBool True)\<rparr>)) ''disconnecting''
          = Some (PBool True))
   \<and> (\<not> client_is_connected env client (world s) \<longrightarrow> disconnect env client s = (Returned (), s))
   \<and> cfg (snd (connect env client0 s)) = cfg s"
  using keeps_cfg_connect [of env client0]
  by (simp add: disconnect_def prog_defs getattr_store_attr keeps_cfg_def)

text \<open>
  C2, as the claim states it, fails: after a session connected and disconnected, the next
  \<open>connect\<close> returns the client and the flag is still set.
\<close>

theorem connect_keeps_flag_counterexample:
  "fst (connect env0 None (snd (disconnect env0 desk_client (snd (connect env0 None state0)))))
     = Returned desk_client
   \<and> getattr (cfg (snd (connect env0 None
        (snd (disconnect env0 desk_client (snd (connect env0 None state0))))))) ''disconnecting''
     = Some (PBool True)
   \<and> truthy (PBool True)"
  by (simp add: connect_def disconnect_def Client_disconnect_def disconnect_callback_def
        new_BleakClient_def prog_defs fixture_defs getattr_def store_attr_def setattr_def Let_def)

theorem disconnect_sets_flag_first_witness:
  "client_is_connected env0 desk_client (world (state0\<lparr>world := True\<rparr>))
   \<and> disconnect env0 desk_client (state0\<lparr>world := True\<rparr>) =
        Client_disconnect env0 desk_client
          (state0\<lparr>world := True, cfg := store_attr (cfg state0) ''disconnecting'' (PBool True)\<rparr>)
   \<and> \<not> client_is_connected env0 desk_client (world state0)
   \<and> disconnect env0 desk_client state0 = (Returned (), state0)"
proof -
  have h1: "client_is_connected env0 desk_client (world (state0\<lparr>world := True\<rparr>))"
    by (simp add: env0_def)
  have h2: "\<not> client_is_connected env0 desk_client (world state0)"
    by (simp add: env0_def state0_def)
  show ?thesis
    using h1 h2
      disconnect_sets_flag_first [of env0 desk_client "state0\<lparr>world := True\<rparr>" None]
      disconnect_sets_flag_first [of env0 desk_client state0 None]
    by simp
qed

section \<open>The log sink of the message-bridge server\<close>

lemma keeps_attr_of_keeps_cfg: "keeps_cfg m \<Longrightarrow> keeps_attr k m"
  by (simp add: keeps_cfg_def keeps_attr_def)

lemma keeps_attr_seq:
  "keeps_attr k m \<Longrightarrow> (\<And>x. keeps_attr k (f x)) \<Longrightarrow> keeps_attr k (seq m f)"
  unfolding keeps_attr_def seq_def
proof (intro allI)
  fix s
  assume m: "\<forall>s. getattr (cfg (snd (m s))) k = getattr (cfg s) k"
    and f: "\<And>x. \<forall>s. getattr (cfg (snd (f x s))) k = getattr (cfg s) k"
  obtain r s1 where ms: "m s = (r, s1)" by (metis surj_pair)
  have c1: "getattr (cfg s1) k = getattr (cfg s) k" using m ms by (metis snd_conv)
  show "getattr (cfg (snd (case m s of (Returned x, s1) \<Rightarrow> f x s1 | (Raised e, s1) \<Rightarrow> (Raised e, s1)
                  | (Blocked, s1) \<Rightarrow> (Blocked, s1)))) k = getattr (cfg s) k"
    using ms c1 f by (cases r) simp_all
qed

lemma set_attr_ordinary:
  "k \<noteq> ''__dict__'' \<Longrightarrow> k \<noteq> ''__class__'' \<Longrightarrow> k \<noteq> ''__weakref__'' \<Longrightarrow>
     set_attr k v s = (Returned (), s\<lparr>cfg := store_attr (cfg s) k v\<rparr>)"
  by (simp add: set_attr_def setattr_def)

lemma keeps_attr_set_attr:
  "k \<noteq> k' \<Longrightarrow> k \<noteq> ''__dict__'' \<Longrightarrow> keeps_attr k' (set_attr k v)"
  by (simp add: keeps_attr_def set_attr_def setattr_def getattr_store_attr)

lemma keeps_attr_set_items:
  "k' \<notin> fst ` set kvs \<Longrightarrow> ''__dict__'' \<notin> fst ` set kvs \<Longrightarrow> keeps_attr k' (set_items kvs)"
proof (induction kvs)
  case Nil
  show ?case by (simp add: keeps_attr_of_keeps_cfg keeps_cfg_prims)
next
  case (Cons kv kvs)
  obtain k v where kv: "kv = (k, v)" by (cases kv)
  from Cons.prems kv have k: "k \<noteq> k'" "k \<noteq> ''__dict__''"
    "k' \<notin> fst ` set kvs" "''__dict__'' \<notin> fst ` set kvs" by auto
  show ?case
    unfolding kv set_items.simps
    by (rule keeps_attr_seq) (simp_all add: keeps_attr_set_attr k Cons.IH)
qed

lemma keeps_attr_apply_forwarded:
  assumes "\<And>kvs. v = PDict kvs \<Longrightarrow> k \<notin> fst ` set kvs \<and> ''__dict__'' \<notin> fst ` set kvs"
  shows "keeps_attr k (apply_forwarded v)"
proof (cases v)
  case (PDict kvs)
  then show ?thesis using assms by (simp add: keeps_attr_set_items)
qed (simp_all add: keeps_attr_of_keeps_cfg keeps_cfg_prims)

lemma keeps_attr_run_forwarded_rest:
  assumes "\<And>kvs. first_msg request = Some (TEXT, Returned (PDict kvs)) \<Longrightarrow>
             k \<notin> fst ` set kvs \<and> ''__dict__'' \<notin> fst ` set kvs"
  shows "keeps_attr k
     (seq (ext (WsPrepare ws) (ws_prepare env ws)) (\<lambda>_.
      seq (case first_msg request of
            None \<Rightarrow> ret ()
          | Some (msg_type, msg_data) \<Rightarrow>
              if msg_type = TEXT then
                seq (lift msg_data) (\<lambda>forwarded_config.
                seq (apply_forwarded forwarded_config) (\<lambda>_.
                run_command env client))
              else ret ()) (\<lambda>_.
      seq (emit (Sleep 1)) (\<lambda>_.
      seq (ext (WsClose ws) (ws_close env ws)) (\<lambda>_.
      ret ws)))))"
proof -
  have msg: "keeps_attr k (case first_msg request of
            None \<Rightarrow> ret ()
          | Some (msg_type, msg_data) \<Rightarrow>
              if msg_type = TEXT then
                seq (lift msg_data) (\<lambda>forwarded_config.
                seq (apply_forwarded forwarded_config) (\<lambda>_.
                run_command env client))
              else ret ())"
  proof (cases "first_msg request")
    case None
    then show ?thesis by (simp add: keeps_attr_of_keeps_cfg keeps_cfg_prims)
  next
    case (Some p)
    obtain ty d where p: "p = (ty, d)" by (cases p)
    show ?thesis
    proof (cases "ty = TEXT")
      case False
      then show ?thesis using Some p by (simp add: keeps_attr_of_keeps_cfg keeps_cfg_prims)
    next
      case True
      have "keeps_attr k (seq (lift d) (\<lambda>forwarded_config.
                seq (apply_forwarded forwarded_config) (\<lambda>_. run_command env client)))"
      proof (cases d)
        case (Returned v)
        have "keeps_attr k (apply_forwarded v)"
          using assms Some p True Returned by (intro keeps_attr_apply_forwarded) simp
        then have "keeps_attr k (seq (apply_forwarded v) (\<lambda>_. run_command env client))"
          by (rule keeps_attr_seq) (simp add: keeps_attr_of_keeps_cfg keeps_cfg_run_command)
        then show ?thesis using Returned by (simp add: keeps_attr_def seq_def lift_def)
      next
        case (Raised e)
        then show ?thesis by (simp add: keeps_attr_def seq_def lift_def)
      next
        case Blocked
        then show ?thesis by (simp add: keeps_attr_def seq_def lift_def)
      qed
      then show ?thesis using Some p True by simp
    qed
  qed
  show ?thesis
    by (intro keeps_attr_seq msg keeps_attr_of_keeps_cfg keeps_cfg_prims)
qed

text \<open>
  C4, as the code has it. \<open>run_forwarded_command\<close> installs the closure \<open>log\<close> around its
  web socket as \<open>config.log\<close> before it applies the descriptor and runs the command: for
  a text message, the handler is the application of the descriptor followed by the
  command, then the closing steps, run from the state in which the sink is installed;
  and unless the
  descriptor has a key \<open>log\<close> or a key \<open>__dict__\<close>, the sink is still installed when the
  descriptor has been applied. The sink is never put back: however the handler ends,
  \<open>config.log\<close> is still the forwarding sink of this request, unless the descriptor itself
  had a key \<open>log\<close> or \<open>__dict__\<close>. Calling that sink prints the message and schedules
  sending it as a text frame on the socket.
\<close>

theorem forwarding_sink_stays:
  "(ws_prepare (env :: 'w env) (req_ws request) (world s) = (Returned (), w1)
      \<and> first_msg request = Some (TEXT, Returned forwarded_config) \<longrightarrow>
      run_forwarded_command env client request s =
        seq (seq (apply_forwarded forwarded_config) (\<lambda>_. run_command env client)) (\<lambda>_.
        seq (emit (Sleep 1)) (\<lambda>_.
        seq (ext (WsClose (req_ws request)) (ws_close env (req_ws request))) (\<lambda>_.
        ret (req_ws request))))
          (s\<lparr>cfg := store_attr (cfg s) ''log'' (PFun (ForwardLog (req_ws request))),
             world := w1,
             trace := trace s @ [Print ReceivedCommand, WsPrepare (req_ws request)]\<rparr>)
      \<and> ((\<forall>kvs. forwarded_config = PDict kvs \<longrightarrow>
               ''log'' \<notin> fst ` set kvs \<and> ''__dict__'' \<notin> fst ` set kvs) \<longrightarrow>
           getattr (cfg (snd (apply_forwarded forwarded_config
             (s\<lparr>cfg := store_attr (cfg s) ''log'' (PFun (ForwardLog (req_ws request))),
                world := w1,
                trace := trace s @ [Print ReceivedCommand, WsPrepare (req_ws request)]\<rparr>)))) ''log''
             = Some (PFun (ForwardLog (req_ws request)))))
   \<and> ((\<forall>kvs. first_msg request = Some (TEXT, Returned (PDict kvs)) \<longrightarrow>
            ''log'' \<notin> fst ` set kvs \<and> ''__dict__'' \<notin> fst ` set kvs) \<longrightarrow>
        getattr (cfg (snd (run_forwarded_command env client request s))) ''log''
          = Some (PFun (ForwardLog (req_ws request))))
   \<and> call_sink other (PFun (ForwardLog ws)) m s =
        (Returned (), s\<lparr>trace := trace s @ [Print m, CreateTask (SendStrTask ws m)]\<rparr>)"
proof (intro conjI impI)
  assume a: "ws_prepare env (req_ws request) (world s) = (Returned (), w1)
      \<and> first_msg request = Some (TEXT, Returned forwarded_config)"
  then show "run_forwarded_command env client request s =
        seq (seq (apply_forwarded forwarded_config) (\<lambda>_. run_command env client)) (\<lambda>_.
        seq (emit (Sleep 1)) (\<lambda>_.
        seq (ext (WsClose (req_ws request)) (ws_close env (req_ws request))) (\<lambda>_.
        ret (req_ws request))))
          (s\<lparr>cfg := store_attr (cfg s) ''log'' (PFun (ForwardLog (req_ws request))),
             world := w1,
             trace := trace s @ [Print ReceivedCommand, WsPrepare (req_ws request)]\<rparr>)"
    by (simp add: run_forwarded_command_def Let_def seq_def ret_def emit_def lift_def ext_def
          set_attr_ordinary)
next
  assume k: "\<forall>kvs. forwarded_config = PDict kvs \<longrightarrow>
               ''log'' \<notin> fst ` set kvs \<and> ''__dict__'' \<notin> fst ` set kvs"
  have "keeps_attr ''log'' (apply_forwarded forwarded_config :: (unit, 'w) prog)"
    using k by (intro keeps_attr_apply_forwarded) blast
  then show "getattr (cfg (snd (apply_forwarded forwarded_config
             (s\<lparr>cfg := store_attr (cfg s) ''log'' (PFun (ForwardLog (req_ws request))),
                world := w1,
                trace := trace s @ [Print ReceivedCommand, WsPrepare (req_ws request)]\<rparr>)))) ''log''
             = Some (PFun (ForwardLog (req_ws request)))"
    by (simp add: keeps_attr_def getattr_store_attr)
next
  assume a: "\<forall>kvs. first_msg request = Some (TEXT, Returned (PDict kvs)) \<longrightarrow>
            ''log'' \<notin> fst ` set kvs \<and> ''__dict__'' \<notin> fst ` set kvs"
  have rest: "keeps_attr ''log''
     (seq (ext (WsPrepare (req_ws request)) (ws_prepare env (req_ws request))) (\<lambda>_.
      seq (case first_msg request of
            None \<Rightarrow> ret ()
          | Some (msg_type, msg_data) \<Rightarrow>
              if msg_type = TEXT then
                seq (lift msg_data) (\<lambda>forwarded_config.
                seq (apply_forwarded forwarded_config) (\<lambda>_.
                run_command env client))
              else ret ()) (\<lambda>_.
      seq (emit (Sleep 1)) (\<lambda>_.
      seq (ext (WsClose (req_ws request)) (ws_close env (req_ws request))) (\<lambda>_.
      ret (req_ws request))))))"
    using a by (intro keeps_attr_run_forwarded_rest) blast
  have "run_forwarded_command env client request s =
      (seq (ext (WsPrepare (req_ws request)) (ws_prepare env (req_ws request))) (\<lambda>_.
      seq (case first_msg request of
            None \<Rightarrow> ret ()
          | Some (msg_type, msg_data) \<Rightarrow>
              if msg_type = TEXT then
                seq (lift msg_data) (\<lambda>forwarded_config.
                seq (apply_forwarded forwarded_config) (\<lambda>_.
                run_command env client))
              else ret ()) (\<lambda>_.
      seq (emit (Sleep 1)) (\<lambda>_.
      seq (ext (WsClose (req_ws request)) (ws_close env (req_ws request))) (\<lambda>_.
      ret (req_ws request))))))
       (s\<lparr>trace := trace s @ [Print ReceivedCommand],
          cfg := store_attr (cfg s) ''log'' (PFun (ForwardLog (req_ws request)))\<rparr>)"
    by (simp add: run_forwarded_command_def Let_def seq_def emit_def set_attr_ordinary)
  then show "getattr (cfg (snd (run_forwarded_command env client request s))) ''log''
          = Some (PFun (ForwardLog (req_ws request)))"
    using rest by (simp add: keeps_attr_def getattr_store_attr)
next
  show "call_sink other (PFun (ForwardLog ws)) m s =
        (Returned (), s\<lparr>trace := trace s @ [Print m, CreateTask (SendStrTask ws m)]\<rparr>)"
    by (simp add: call_sink_def forward_log_def seq_def emit_def)
qed

text \<open>
  C4, as the claim states it, fails: the sink installed before the request is not back in
  effect when the request has completed.
\<close>

theorem log_sink_restored_counterexample:
  "getattr (cfg state0) ''log'' = Some (PFun (OtherCallable 0))
   \<and> fst (run_forwarded_command env0 desk_client request7 state0) = Returned 7
   \<and> getattr (cfg (snd (run_forwarded_command env0 desk_client request7 state0))) ''log''
       = Some (PFun (ForwardLog 7))
   \<and> PFun (ForwardLog 7) \<noteq> PFun (OtherCallable 0)"
  by (simp add: run_forwarded_command_def run_command_def request7_def prog_defs fixture_defs
        desk_defs command_defs getattr_def store_attr_def Let_def)

theorem forwarding_sink_stays_witness:
  "ws_prepare env0 (req_ws request7) (world state0) = (Returned (), False)
   \<and> first_msg request7 = Some (TEXT, Returned (PDict [(''command'', PNone)]))
   \<and> ''log'' \<notin> fst ` set [(''command'', PNone)]
   \<and> ''__dict__'' \<notin> fst ` set [(''command'', PNone)]
   \<and> getattr (cfg (snd (apply_forwarded (PDict [(''command'', PNone)])
        (state0\<lparr>cfg := store_attr (cfg state0) ''log'' (PFun (ForwardLog 7)),
           world := False,
           trace := trace state0 @ [Print ReceivedCommand, WsPrepare 7]\<rparr>)))) ''log''
       = Some (PFun (ForwardLog 7))
   \<and> getattr (cfg (snd (run_forwarded_command env0 desk_client request7 state0))) ''log''
       = Some (PFun (ForwardLog 7))"
proof -
  have h1: "ws_prepare env0 (req_ws request7) (world state0) = (Returned (), False)
     \<and> first_msg request7 = Some (TEXT, Returned (PDict [(''command'', PNone)]))"
    by (simp add: env0_def request7_def state0_def)
  have h2: "''log'' \<notin> fst ` set [(''command'', PNone)]"
    "''__dict__'' \<notin> fst ` set [(''command'', PNone)]" by simp_all
  have h3: "\<forall>kvs. PDict [(''command'', PNone)] = PDict kvs \<longrightarrow>
              ''log'' \<notin> fst ` set kvs \<and> ''__dict__'' \<notin> fst ` set kvs"
    by simp
  have h4: "\<forall>kvs. first_msg request7 = Some (TEXT, Returned (PDict kvs)) \<longrightarrow>
              ''log'' \<notin> fst ` set kvs \<and> ''__dict__'' \<notin> fst ` set kvs"
    by (simp add: request7_def)
  have r: "req_ws request7 = 7" by (simp add: request7_def)
  note th = forwarding_sink_stays [where env = env0 and request = request7 and s = state0
      and ?w1.0 = False and forwarded_config = "PDict [(''command'', PNone)]"
      and client = desk_client]
  have a: "getattr (cfg (snd (apply_forwarded (PDict [(''command'', PNone)])
        (state0\<lparr>cfg := store_attr (cfg state0) ''log'' (PFun (ForwardLog (req_ws request7))),
           world := False,
           trace := trace state0 @ [Print ReceivedCommand, WsPrepare (req_ws request7)]\<rparr>)))) ''log''
       = Some (PFun (ForwardLog (req_ws request7)))"
    using th h1 h3 by blast
  have b: "getattr (cfg (snd (run_forwarded_command env0 desk_client request7 state0))) ''log''
          = Some (PFun (ForwardLog (req_ws request7)))"
    using th h4 by blast
  show ?thesis
    using h1 h2 a b by (simp add: r)
qed

text \<open>
  The two keys that \<open>setattr\<close> treats apart, at the concrete installation: a descriptor
  \<open>{"__dict__": {}}\<close> empties the instance dictionary, so \<open>config.log\<close> reads the class
  attribute again when the handler ends; a descriptor \<open>{"__class__": "x"}\<close> makes the
  handler raise before the command is run.
\<close>

lemma special_keys_of_a_descriptor:
  "getattr (cfg (snd (run_forwarded_command env0 desk_client
      \<lparr>req_ws = 7, first_msg = Some (TEXT, Returned (PDict [(''__dict__'', PDict [])]))\<rparr> state0)))
      ''log'' = Some (PFun (OtherCallable 0))
   \<and> run_forwarded_command env0 desk_client
      \<lparr>req_ws = 7, first_msg = Some (TEXT, Returned (PDict [(''__class__'', PStr ''x'')]))\<rparr> state0
     = (Raised TypeError,
        state0\<lparr>world := False, trace := [Print ReceivedCommand, WsPrepare 7],
           cfg := store_attr (cfg state0) ''log'' (PFun (ForwardLog 7))\<rparr>)"
  by (simp add: run_forwarded_command_def run_command_def prog_defs fixture_defs
        desk_defs command_defs getattr_def store_attr_def Let_def)

section \<open>Commands that do not move the desk\<close>

lemma run_command_move_to_prefix:
  assumes g: "desk_get_height_speed env (cfg s) client (world s) = (Returned (initial_height, sp), w1)"
    and l: "desk_log_state env (cfg s) initial_height w1 = (Returned (), w2)"
    and c: "getattr (cfg s) ''command'' = Some Commands_move_to"
    and m: "getattr (cfg s) ''move_to'' = Some move_to"
    and f: "getattr (cfg s) ''favourites'' = Some favourites"
    and i: "py_in move_to favourites = Returned is_favourite"
  shows "run_command env client s =
     (if is_favourite then
         seq (lift (py_get favourites move_to)) (\<lambda>favourite.
         seq (Height env favourite) (\<lambda>target.
         seq (config_info (MovingToFavourite move_to target)) (\<lambda>_.
         move_and_report env client initial_height target)))
       else if str_isnumeric move_to then
         seq (lift (py_int move_to)) (\<lambda>n.
         seq (Height env (PInt n)) (\<lambda>target.
         seq (config_info (MovingToHeight move_to)) (\<lambda>_.
         move_and_report env client initial_height target)))
       else
         config_error (NotAValidHeight move_to))
      (s\<lparr>world := w2, trace := trace s @ [DeskGetHeightSpeed client, DeskLogState initial_height]\<rparr>)"
  using assms
  by (simp add: run_command_def Desk_get_height_speed_def Desk_log_state_def
        seq_def ext_def get_attr_def lift_def command_defs)



section \<open>How a session ends\<close>

lemma manage_except_Returned: "manage_except (Returned code) s = (Returned code, s)"
  by (simp add: manage_except_def lift_def)

lemma manage_except_Raised: "fst (manage_except (Raised e) s) = Returned 1"
  by (cases e) (simp_all add: manage_except_def prog_defs)


lemma manage_without_client:
  "connect_step env s = (Returned (Inl code), s1) \<Longrightarrow> manage env s = (Returned code, s1)"
  by (simp add: manage_def manage_try_def manage_except_Returned)


lemma manage_with_client:
  assumes "connect_step env s = (Returned (Inr c), s1)"
    and "dispatch env c s1 = (r, s2)"
    and "r \<noteq> Blocked"
  shows "manage env s =
           seq (cleanup env c) (\<lambda>_. lift (fst (manage_except r s2))) (snd (manage_except r s2))"
proof -
  obtain r1 s3 where m: "manage_except r s2 = (r1, s3)" by (metis surj_pair)
  have "r1 \<noteq> Blocked"
  proof (cases r)
    case (Returned code)
    then show ?thesis using m by (auto simp: manage_except_Returned)
  next
    case (Raised e)
    then show ?thesis using m manage_except_Raised [of e s2] by auto
  next
    case Blocked
    then show ?thesis using assms(3) by simp
  qed
  then show ?thesis
    using assms(1,2) m by (cases r1) (simp_all add: manage_def manage_try_def)
qed

lemma dispatch_run_command:
  assumes "getattr (cfg s) ''command'' = Some command"
    and "command \<noteq> Commands_server" and "command \<noteq> Commands_tcp_server"
  shows "dispatch env client s = seq (run_command env client) (\<lambda>_. ret 0) s"
  using assms by (simp add: dispatch_def seq_def get_attr_def)

lemma manage_completed_command:
  assumes cs: "connect_step env s0 = (Returned (Inr client), s)"
    and c: "getattr (cfg s) ''command'' = Some command"
      "command \<noteq> Commands_server" "command \<noteq> Commands_tcp_server"
    and r: "run_command env client s = (Returned (), s1)"
    and cl: "fst (cleanup env client s1) = Returned ()"
  shows "manage env s0 = (Returned 0, snd (cleanup env client s1))"
proof -
  have d: "dispatch env client s = (Returned 0, s1)"
    using r by (simp add: dispatch_run_command [OF c] seq_def ret_def)
  obtain u s2 where k: "cleanup env client s1 = (u, s2)" by (metis surj_pair)
  show ?thesis
    using cl k by (simp add: manage_with_client [OF cs d] manage_except_Returned seq_def lift_def)
qed

section \<open>A target that cannot be resolved\<close>

text \<open>
  \<open>run_command\<close> with command move-to, where the target is not among the favourites and
  \<open>str.isnumeric\<close> rejects its text: it logs the error and returns normally. After the
  reading and logging of the height the only event is the error message: no
  \<open>Desk.move_to\<close>, no \<open>Desk.watch_height_speed\<close>. In a session that connected and whose
  cleanup completes, \<open>manage\<close> then returns status 0.
\<close>

lemma rejected_target_is_logged:
  assumes "desk_get_height_speed env (cfg s) client (world s) = (Returned (initial_height, sp), w1)"
    and "desk_log_state env (cfg s) initial_height w1 = (Returned (), w2)"
    and "getattr (cfg s) ''command'' = Some Commands_move_to"
    and "getattr (cfg s) ''move_to'' = Some move_to"
    and "getattr (cfg s) ''favourites'' = Some favourites"
    and "py_in move_to favourites = Returned False"
    and "\<not> str_isnumeric move_to"
  shows "run_command env client s =
           (Returned (), s\<lparr>world := w2, trace := trace s @
              [DeskGetHeightSpeed client, DeskLogState initial_height,
               Log Error (NotAValidHeight move_to)]\<rparr>)
         \<and> filter is_move_to (trace (snd (run_command env client s))) = filter is_move_to (trace s)
         \<and> filter is_watch (trace (snd (run_command env client s))) = filter is_watch (trace s)
         \<and> (connect_step env s0 = (Returned (Inr client), s)
              \<and> fst (cleanup env client (snd (run_command env client s))) = Returned ()
            \<longrightarrow> fst (manage env s0) = Returned 0)"
proof -
  have eq: "run_command env client s =
           (Returned (), s\<lparr>world := w2, trace := trace s @
              [DeskGetHeightSpeed client, DeskLogState initial_height,
               Log Error (NotAValidHeight move_to)]\<rparr>)"
    using assms(7)
    by (simp add: run_command_move_to_prefix [OF assms(1-6)] prog_defs)
  have ne: "Commands_move_to \<noteq> Commands_server" "Commands_move_to \<noteq> Commands_tcp_server"
    by (simp_all add: command_defs)
  have "fst (manage env s0) = Returned 0"
    if "connect_step env s0 = (Returned (Inr client), s)"
      and "fst (cleanup env client (snd (run_command env client s))) = Returned ()"
    using manage_completed_command [OF that(1) assms(3) ne eq] that(2) by (simp add: eq)
  then show ?thesis by (simp add: eq)
qed

lemma connect_step_env0:
  "getattr (cfg s) ''forward'' = Some (PBool False) \<Longrightarrow>
   getattr (cfg s) ''command'' = Some command \<Longrightarrow> command \<noteq> Commands_scan_adapter \<Longrightarrow>
   getattr (cfg s) ''mac_address'' = Some mac \<Longrightarrow>
   getattr (cfg s) ''adapter_name'' = Some ad \<Longrightarrow>
   getattr (cfg s) ''connection_timeout'' = Some t \<Longrightarrow>
   connect_step env0 s =
     (Returned (Inr \<lparr>address = mac, adapter = ad\<rparr>),
      s\<lparr>world := True, trace := trace s @
         [Print Connecting, NewBleakClient mac ad, ClientConnect \<lparr>address = mac, adapter = ad\<rparr> t,
          Print (Connected mac), DeskInitialise \<lparr>address = mac, adapter = ad\<rparr>]\<rparr>)"
  by (simp add: connect_step_def connect_def new_BleakClient_def prog_defs env0_def)

lemma cleanup_env0:
  "world s = True \<Longrightarrow>
   cleanup env0 client s =
     (Returned (), s\<lparr>world := False,
        trace := trace s @ [Print Disconnecting, DeskStop client, ClientDisconnect client, Print Disconnected],
        cfg := store_attr (cfg s) ''disconnecting'' (PBool True)\<rparr>)"
  by (simp add: cleanup_def disconnect_def Client_disconnect_def disconnect_callback_def
        Desk_stop_def prog_defs env0_def getattr_store_attr Let_def)

lemma rejected_target_is_logged_example:
  "fst (run_command env0 desk_client
     (snd (connect_step env0 (with_attr ''command'' Commands_move_to (with_attr ''move_to'' (PStr ''up'') state0)))))
     = Returned ()
   \<and> trace (snd (run_command env0 desk_client
     (snd (connect_step env0 (with_attr ''command'' Commands_move_to (with_attr ''move_to'' (PStr ''up'') state0))))))
     = [Print Connecting, NewBleakClient (PStr ''C0:FF:EE:00:00:01'') (PStr ''hci0''),
        ClientConnect desk_client (PInt 10), Print (Connected (PStr ''C0:FF:EE:00:00:01'')),
        DeskInitialise desk_client,
        DeskGetHeightSpeed desk_client, DeskLogState \<lparr>hvalue = 1300\<rparr>,
        Log Error (NotAValidHeight (PStr ''up''))]
   \<and> fst (manage env0 (with_attr ''command'' Commands_move_to (with_attr ''move_to'' (PStr ''up'') state0)))
     = Returned 0"
proof -
  let ?start = "with_attr ''command'' Commands_move_to (with_attr ''move_to'' (PStr ''up'') state0)"
  let ?favs = "PDict [(''sit'', PInt 750), (''stand'', PInt 1100)]"
  let ?tr = "[Print Connecting, NewBleakClient (PStr ''C0:FF:EE:00:00:01'') (PStr ''hci0''),
        ClientConnect desk_client (PInt 10), Print (Connected (PStr ''C0:FF:EE:00:00:01'')),
        DeskInitialise desk_client]"
  let ?s = "?start\<lparr>world := True, trace := ?tr\<rparr>"
  have c1: "getattr (cfg ?start) ''forward'' = Some (PBool False)"
    and c2: "getattr (cfg ?start) ''command'' = Some Commands_move_to"
    and c3: "Commands_move_to \<noteq> Commands_scan_adapter"
    and c4: "getattr (cfg ?start) ''mac_address'' = Some (PStr ''C0:FF:EE:00:00:01'')"
    and c5: "getattr (cfg ?start) ''adapter_name'' = Some (PStr ''hci0'')"
    and c6: "getattr (cfg ?start) ''connection_timeout'' = Some (PInt 10)"
    by (simp_all add: with_attr_def store_attr_def setattr_def state0_def config0_def class_attributes_def
          getattr_def command_defs)
  have t0: "trace ?start = []" by (simp add: with_attr_def state0_def)
  have cs: "connect_step env0 ?start = (Returned (Inr desk_client), ?s)"
    by (simp add: connect_step_env0 [OF c1 c2 c3 c4 c5 c6] desk_client_def t0)
  have a1: "desk_get_height_speed env0 (cfg ?s) desk_client (world ?s) = (Returned (\<lparr>hvalue = 1300\<rparr>, 0), True)"
    by (simp add: env0_def)
  have a2: "desk_log_state env0 (cfg ?s) \<lparr>hvalue = 1300\<rparr> True = (Returned (), True)"
    by (simp add: env0_def)
  have a3: "getattr (cfg ?s) ''command'' = Some Commands_move_to"
    by (simp add: with_attr_def getattr_store_attr)
  have a4: "getattr (cfg ?s) ''move_to'' = Some (PStr ''up'')"
    by (simp add: with_attr_def getattr_store_attr)
  have a5: "getattr (cfg ?s) ''favourites'' = Some ?favs"
    by (simp add: with_attr_def store_attr_def setattr_def state0_def config0_def getattr_def)
  have a6: "py_in (PStr ''up'') ?favs = Returned False" by simp
  have a7: "\<not> str_isnumeric (PStr ''up'')"
    by (simp add: isnumeric_def numeric_char_def is_digit_def)
  note th = rejected_target_is_logged [OF a1 a2 a3 a4 a5 a6 a7, of ?start]
  have rc: "run_command env0 desk_client ?s =
     (Returned (), ?s\<lparr>world := True, trace := trace ?s @
              [DeskGetHeightSpeed desk_client, DeskLogState \<lparr>hvalue = 1300\<rparr>,
               Log Error (NotAValidHeight (PStr ''up''))]\<rparr>)"
    using th by blast
  have cl: "fst (cleanup env0 desk_client (snd (run_command env0 desk_client ?s))) = Returned ()"
    by (simp add: rc cleanup_env0)
  have m: "fst (manage env0 ?start) = Returned 0"
    using th cs cl by blast
  show ?thesis
    using m by (simp add: cs rc)
qed

text \<open>
  C6. A move-to target that is neither a favourite nor a number is to be logged as an
  error, without a device write and without failing the session. The code does so only
  for the targets \<open>str.isnumeric\<close> rejects. The target made of the one character U+00B2
  (superscript two) is no favourite and no number, but \<open>str.isnumeric\<close> accepts it and
  \<open>int\<close> then raises \<open>ValueError\<close>: \<open>run_command\<close> raises, no error is logged through
  \<open>config.error\<close>, and \<open>manage\<close> reports something unexpected and returns status 1.
\<close>

theorem numeric_looking_target_escalates:
  "py_in (PStr [CHR 0xB2]) (PDict [(''sit'', PInt 750), (''stand'', PInt 1100)]) = Returned False
   \<and> str_isnumeric (PStr [CHR 0xB2])
   \<and> py_int (PStr [CHR 0xB2]) = Raised ValueError
   \<and> fst (run_command env0 desk_client
        (snd (connect_step env0
          (with_attr ''command'' Commands_move_to (with_attr ''move_to'' (PStr [CHR 0xB2]) state0)))))
       = Raised ValueError
   \<and> fst (manage env0
        (with_attr ''command'' Commands_move_to (with_attr ''move_to'' (PStr [CHR 0xB2]) state0)))
       = Returned 1
   \<and> trace (snd (manage env0
        (with_attr ''command'' Commands_move_to (with_attr ''move_to'' (PStr [CHR 0xB2]) state0))))
       = [Print Connecting, NewBleakClient (PStr ''C0:FF:EE:00:00:01'') (PStr ''hci0''),
          ClientConnect desk_client (PInt 10), Print (Connected (PStr ''C0:FF:EE:00:00:01'')),
          DeskInitialise desk_client, DeskGetHeightSpeed desk_client, DeskLogState \<lparr>hvalue = 1300\<rparr>,
          Print SomethingUnexpected, Print Traceback,
          Print Disconnecting, DeskStop desk_client, ClientDisconnect desk_client,
          Print Disconnected]"
  by (simp add: session_defs prog_defs fixture_defs command_defs desk_defs getattr_def
        store_attr_def isnumeric_def numeric_char_def is_digit_def Let_def)

section \<open>Status of a session\<close>











section \<open>Cleanup\<close>

lemma extends_trace_prims:
  "extends_trace (ret x)" "extends_trace (raise e)" "extends_trace (lift r)"
  "extends_trace (emit ev)" "extends_trace (get_attr k)" "extends_trace (set_attr k v)"
  "extends_trace (ext ev op)"
  by (auto simp: extends_trace_def prog_defs split: option.splits prod.splits pyval.splits)

lemma extends_trace_seq:
  assumes m: "extends_trace m" and f: "\<And>x. extends_trace (f x)"
  shows "extends_trace (seq m f)"
  unfolding extends_trace_def
proof
  fix s
  obtain r s1 where ms: "m s = (r, s1)" by (metis surj_pair)
  obtain evs where e1: "trace s1 = trace s @ evs"
    using m ms unfolding extends_trace_def by (metis snd_conv)
  show "\<exists>evs. trace (snd (seq m f s)) = trace s @ evs"
  proof (cases r)
    case (Returned x)
    obtain evs2 where "trace (snd (f x s1)) = trace s1 @ evs2"
      using f [of x] unfolding extends_trace_def by blast
    then show ?thesis using ms Returned e1 by (simp add: seq_def)
  next
    case (Raised e)
    then show ?thesis using ms e1 by (simp add: seq_def)
  next
    case Blocked
    then show ?thesis using ms e1 by (simp add: seq_def)
  qed
qed

lemma extends_trace_if:
  "extends_trace a \<Longrightarrow> extends_trace b \<Longrightarrow> extends_trace (if c then a else b)"
  by simp

lemma extends_trace_disconnect_callback: "extends_trace (disconnect_callback client)"
  unfolding disconnect_callback_def
  by (intro extends_trace_seq extends_trace_if extends_trace_prims)

lemma extends_trace_Client_disconnect:
  "extends_trace (Client_disconnect (env :: 'w env) client)"
  unfolding extends_trace_def
proof
  fix s :: "'w state"
  obtain reported r w where d: "client_disconnect env client (world s) = ((reported, r), w)"
    by (metis surj_pair)
  let ?s1 = "s\<lparr>world := w, trace := trace s @ [ClientDisconnect client]\<rparr>"
  obtain evs where "trace (snd (disconnect_callback client ?s1)) = trace ?s1 @ evs"
    using extends_trace_disconnect_callback [of client] unfolding extends_trace_def by blast
  then show "\<exists>evs. trace (snd (Client_disconnect env client s)) = trace s @ evs"
    using d by (cases reported) (simp_all add: Client_disconnect_def Let_def)
qed

lemma extends_trace_disconnect: "extends_trace (disconnect env client)"
  unfolding extends_trace_def
proof
  fix s
  have "extends_trace (seq (set_attr ''disconnecting'' (PBool True)) (\<lambda>_. Client_disconnect env client))"
    by (intro extends_trace_seq extends_trace_prims extends_trace_Client_disconnect)
  then show "\<exists>evs. trace (snd (disconnect env client s)) = trace s @ evs"
    unfolding extends_trace_def disconnect_def by (simp add: ret_def)
qed

lemma cleanup_after_stop:
  assumes "desk_stop env (cfg s) c (world s) = (Returned (), w)"
  shows "cleanup env c s =
           seq (disconnect env c) (\<lambda>_. emit (Print Disconnected))
             (s\<lparr>world := w, trace := trace s @ [Print Disconnecting, DeskStop c]\<rparr>)"
  using assms by (simp add: cleanup_def Desk_stop_def seq_def emit_def ext_def)

lemma cleanup_issues_stop:
  "\<exists>evs. trace (snd (cleanup env c s)) = trace s @ [Print Disconnecting, DeskStop c] @ evs"
proof -
  obtain r w where st: "desk_stop env (cfg s) c (world s) = (r, w)" by (metis surj_pair)
  let ?s1 = "s\<lparr>world := w, trace := trace s @ [Print Disconnecting, DeskStop c]\<rparr>"
  show ?thesis
  proof (cases r)
    case (Returned u)
    have "extends_trace (seq (disconnect env c) (\<lambda>_. emit (Print Disconnected)))"
      by (intro extends_trace_seq extends_trace_prims extends_trace_disconnect)
    then obtain evs where
      "trace (snd (seq (disconnect env c) (\<lambda>_. emit (Print Disconnected)) ?s1)) = trace ?s1 @ evs"
      unfolding extends_trace_def by blast
    then show ?thesis
      using st Returned by (simp add: cleanup_after_stop)
  next
    case (Raised e)
    then show ?thesis
      using st by (simp add: cleanup_def Desk_stop_def seq_def emit_def ext_def)
  next
    case Blocked
    then show ?thesis
      using st by (simp add: cleanup_def Desk_stop_def seq_def emit_def ext_def)
  qed
qed

text \<open>
  C8, as the code has it. When \<open>connect\<close> has returned a client to \<open>manage\<close> and the rest of
  the \<open>try\<close> block ends, by returning or by raising, \<open>manage\<close> is the cleanup for that client
  run after the block and its handlers, followed by the pending status. The cleanup
  always issues the device stop first; when the stop returns, the cleanup goes on with
  \<open>disconnect\<close> for the same client. When the first part of the block ends in a
  \<open>return\<close> with no client assigned, as it does after a failed \<open>connect\<close>, \<open>manage\<close> ends
  there, in the state of that \<open>return\<close>.
\<close>

theorem cleanup_after_session:
  "(connect_step env s = (Returned (Inr c), s1) \<and> dispatch env c s1 = (r, s2) \<and> r \<noteq> Blocked \<longrightarrow>
      manage env s =
        seq (cleanup env c) (\<lambda>_. lift (fst (manage_except r s2))) (snd (manage_except r s2))
      \<and> (\<exists>evs. trace (snd (manage env s)) =
            trace (snd (manage_except r s2)) @ [Print Disconnecting, DeskStop c] @ evs))
   \<and> (\<exists>evs. trace (snd (cleanup env c s)) = trace s @ [Print Disconnecting, DeskStop c] @ evs)
   \<and> (desk_stop env (cfg s) c (world s) = (Returned (), w) \<longrightarrow>
        cleanup env c s =
          seq (disconnect env c) (\<lambda>_. emit (Print Disconnected))
            (s\<lparr>world := w, trace := trace s @ [Print Disconnecting, DeskStop c]\<rparr>))
   \<and> (connect_step env s = (Returned (Inl code), s3) \<longrightarrow> manage env s = (Returned code, s3))"
proof (intro conjI impI)
  assume a: "connect_step env s = (Returned (Inr c), s1) \<and> dispatch env c s1 = (r, s2) \<and> r \<noteq> Blocked"
  then show eq: "manage env s =
        seq (cleanup env c) (\<lambda>_. lift (fst (manage_except r s2))) (snd (manage_except r s2))"
    by (simp add: manage_with_client)
  let ?s3 = "snd (manage_except r s2)"
  obtain evs where e: "trace (snd (cleanup env c ?s3)) = trace ?s3 @ [Print Disconnecting, DeskStop c] @ evs"
    using cleanup_issues_stop [of env c ?s3] by blast
  obtain u s4 where k: "cleanup env c ?s3 = (u, s4)" by (metis surj_pair)
  have "trace (snd (manage env s)) = trace s4"
    using k by (cases u) (simp_all add: eq seq_def lift_def)
  then show "\<exists>evs. trace (snd (manage env s)) =
            trace (snd (manage_except r s2)) @ [Print Disconnecting, DeskStop c] @ evs"
    using e k by auto
next
  show "\<exists>evs. trace (snd (cleanup env c s)) = trace s @ [Print Disconnecting, DeskStop c] @ evs"
    by (rule cleanup_issues_stop)
next
  assume "desk_stop env (cfg s) c (world s) = (Returned (), w)"
  then show "cleanup env c s =
          seq (disconnect env c) (\<lambda>_. emit (Print Disconnected))
            (s\<lparr>world := w, trace := trace s @ [Print Disconnecting, DeskStop c]\<rparr>)"
    by (rule cleanup_after_stop)
next
  assume "connect_step env s = (Returned (Inl code), s3)"
  then show "manage env s = (Returned code, s3)"
    by (rule manage_without_client)
qed

text \<open>
  C8, as the claim states it, fails twice. When the device handshake fails inside
  \<open>connect\<close>, the client object was created and the link is up, yet the session ends with
  status 1 and neither stop nor disconnect. When the device refuses the stop, the cleanup
  ends there: no disconnect follows, the link stays up and \<open>manage\<close> raises.
\<close>

theorem cleanup_counterexample:
  "fst (manage env_initialise_fails state0) = Returned 1
   \<and> trace (snd (manage env_initialise_fails state0)) =
       [Print Connecting, NewBleakClient (PStr ''C0:FF:EE:00:00:01'') (PStr ''hci0''),
        ClientConnect desk_client (PInt 10), Print (Connected (PStr ''C0:FF:EE:00:00:01'')),
        DeskInitialise desk_client, Print ConnectingFailed,
        Print (ExceptionText (BleakError ''Characteristic was not found''))]
   \<and> world (snd (manage env_initialise_fails state0)) = True
   \<and> fst (manage env_stop_fails state0) = Raised (BleakError ''Not connected'')
   \<and> trace (snd (manage env_stop_fails state0)) =
       [Print Connecting, NewBleakClient (PStr ''C0:FF:EE:00:00:01'') (PStr ''hci0''),
        ClientConnect desk_client (PInt 10), Print (Connected (PStr ''C0:FF:EE:00:00:01'')),
        DeskInitialise desk_client, DeskGetHeightSpeed desk_client, DeskLogState \<lparr>hvalue = 1300\<rparr>,
        Print Disconnecting, DeskStop desk_client]
   \<and> world (snd (manage env_stop_fails state0)) = True"
  by (simp add: session_defs prog_defs fixture_defs command_defs desk_defs
        env_initialise_fails_def env_stop_fails_def getattr_def store_attr_def setattr_def Let_def)

theorem cleanup_after_session_witness:
  "connect_step env0 state0 = (Returned (Inr desk_client), snd (connect_step env0 state0))
   \<and> fst (dispatch env0 desk_client (snd (connect_step env0 state0))) = Returned 0
   \<and> trace (snd (manage env0 state0)) =
       [Print Connecting, NewBleakClient (PStr ''C0:FF:EE:00:00:01'') (PStr ''hci0''),
        ClientConnect desk_client (PInt 10), Print (Connected (PStr ''C0:FF:EE:00:00:01'')),
        DeskInitialise desk_client, DeskGetHeightSpeed desk_client, DeskLogState \<lparr>hvalue = 1300\<rparr>,
        Print Disconnecting, DeskStop desk_client, ClientDisconnect desk_client, Print Disconnected]"
proof -
  let ?s1 = "snd (connect_step env0 state0)"
  let ?s2 = "snd (dispatch env0 desk_client ?s1)"
  have g1: "connect_step env0 state0 = (Returned (Inr desk_client), ?s1)"
    by (simp add: session_defs prog_defs fixture_defs command_defs getattr_def)
  have g2: "fst (dispatch env0 desk_client ?s1) = Returned 0"
    by (simp add: session_defs prog_defs fixture_defs command_defs desk_defs getattr_def)
  have g2': "dispatch env0 desk_client ?s1 = (Returned 0, ?s2)"
    using g2 by (metis prod.collapse)
  have g3: "Returned (0::int) \<noteq> Blocked" by simp
  have m: "manage env0 state0 =
        seq (cleanup env0 desk_client) (\<lambda>_. lift (fst (manage_except (Returned 0) ?s2)))
          (snd (manage_except (Returned 0) ?s2))"
    using cleanup_after_session [of env0 state0 desk_client ?s1 "Returned 0" ?s2] g1 g2' g3
    by blast
  have w: "world ?s2 = True"
    by (simp add: session_defs prog_defs fixture_defs command_defs desk_defs getattr_def)
  have t: "trace ?s2 = [Print Connecting, NewBleakClient (PStr ''C0:FF:EE:00:00:01'') (PStr ''hci0''),
        ClientConnect desk_client (PInt 10), Print (Connected (PStr ''C0:FF:EE:00:00:01'')),
        DeskInitialise desk_client, DeskGetHeightSpeed desk_client, DeskLogState \<lparr>hvalue = 1300\<rparr>]"
    by (simp add: session_defs prog_defs fixture_defs command_defs desk_defs getattr_def)
  have "trace (snd (manage env0 state0)) = trace ?s2 @
     [Print Disconnecting, DeskStop desk_client, ClientDisconnect desk_client, Print Disconnected]"
    by (simp add: m manage_except_Returned cleanup_env0 [OF w] seq_def lift_def)
  then show ?thesis using g1 g2 t by simp
qed

section \<open>What a forwarded descriptor can write\<close>

text \<open>
  C1. Both servers write every key of the descriptor: a descriptor with the key
  \<open>mac_address\<close> changes that attribute of \<open>config\<close>, over the socket and over the web
  socket alike.
\<close>

theorem forwarded_descriptor_sets_any_key:
  "getattr (cfg state0) ''mac_address'' = Some (PStr ''C0:FF:EE:00:00:01'')
   \<and> ''mac_address'' \<notin> set ALLOWED_KEYS
   \<and> fst (run_tcp_forwarded_command env0 desk_client
        (Returned (PDict [(''mac_address'', PStr ''AA:BB:CC:00:00:02'')])) state0) = Returned ()
   \<and> getattr (cfg (snd (run_tcp_forwarded_command env0 desk_client
        (Returned (PDict [(''mac_address'', PStr ''AA:BB:CC:00:00:02'')])) state0))) ''mac_address''
       = Some (PStr ''AA:BB:CC:00:00:02'')
   \<and> fst (run_forwarded_command env0 desk_client
        \<lparr>req_ws = 7, first_msg = Some (TEXT, Returned (PDict [(''mac_address'', PStr ''AA:BB:CC:00:00:02'')]))\<rparr>
        state0) = Returned 7
   \<and> getattr (cfg (snd (run_forwarded_command env0 desk_client
        \<lparr>req_ws = 7, first_msg = Some (TEXT, Returned (PDict [(''mac_address'', PStr ''AA:BB:CC:00:00:02'')]))\<rparr>
        state0))) ''mac_address''
       = Some (PStr ''AA:BB:CC:00:00:02'')"
  by (simp add: run_tcp_forwarded_command_def run_forwarded_command_def run_command_def
        prog_defs fixture_defs desk_defs command_defs getattr_def store_attr_def setattr_def Let_def
        ALLOWED_KEYS_def)

section \<open>What the scan lists\<close>

lemma print_devices_eq:
  "print_devices devices s =
     (Returned (), s\<lparr>trace := trace s @ map (\<lambda>d. Print (DeviceLine d)) devices\<rparr>)"
  by (induction devices arbitrary: s) (simp_all add: prog_defs)

lemma scan_prints_all_devices:
  assumes "getattr (cfg s) ''adapter_name'' = Some adapter_name"
    and "getattr (cfg s) ''scan_timeout'' = Some scan_timeout"
    and "scanner_discover env adapter_name scan_timeout (world s) = (Returned devices, w)"
  shows "scan env s =
     (Returned devices, s\<lparr>world := w, trace := trace s @
        [Print Scanning, ScannerDiscover adapter_name scan_timeout,
         Print (FoundDevices (length devices) adapter_name)]
        @ map (\<lambda>d. Print (DeviceLine d)) devices\<rparr>)"
  using assms by (simp add: scan_def prog_defs print_devices_eq)

text \<open>
  C10. With the address of the desk configured, the scan prints and returns every
  discovered device, the one at another address too: \<open>scan\<close> never reads the configured
  address.
\<close>

theorem scan_ignores_configured_address:
  "getattr (cfg state0) ''mac_address'' = Some (PStr ''C0:FF:EE:00:00:01'')
   \<and> device_address other_device \<noteq> ''C0:FF:EE:00:00:01''
   \<and> fst (scan env0 state0) = Returned [desk_device, other_device]
   \<and> trace (snd (scan env0 state0)) =
       [Print Scanning, ScannerDiscover (PStr ''hci0'') (PInt 5),
        Print (FoundDevices 2 (PStr ''hci0'')),
        Print (DeviceLine desk_device), Print (DeviceLine other_device)]"
  by (simp add: scan_def prog_defs fixture_defs getattr_def)

section \<open>The forwarding client\<close>

lemma extends_trace_receive_loop: "extends_trace (receive_loop ws msgs)"
proof (induction msgs)
  case Nil
  show ?case by (simp add: extends_trace_seq extends_trace_prims)
next
  case (Cons msg rest)
  obtain msg_type msg_data where m: "msg = (msg_type, msg_data)" by (cases msg)
  show ?case
    unfolding m receive_loop.simps
    by (intro extends_trace_seq extends_trace_if extends_trace_prims Cons.IH)
qed

lemma extends_trace_receive_incoming:
  "extends_trace (\<lambda>s. receive_loop ws (incoming s) s)"
  using extends_trace_receive_loop [of ws] unfolding extends_trace_def by blast

lemma trace_after_ext:
  assumes "\<And>x. extends_trace (f x)"
  shows "\<exists>evs. trace (snd (seq (ext ev op) f s)) = trace s @ [ev] @ evs"
proof -
  obtain r w where o: "op (world s) = (r, w)" by (metis surj_pair)
  let ?s1 = "s\<lparr>world := w, trace := trace s @ [ev]\<rparr>"
  show ?thesis
  proof (cases r)
    case (Returned x)
    obtain evs where "trace (snd (f x ?s1)) = trace ?s1 @ evs"
      using assms [of x] unfolding extends_trace_def by blast
    then show ?thesis using o Returned by (simp add: seq_def ext_def)
  next
    case (Raised e)
    then show ?thesis using o by (simp add: seq_def ext_def)
  next
    case Blocked
    then show ?thesis using o by (simp add: seq_def ext_def)
  qed
qed

lemma forwarded_config_of_keys:
  "set (map fst (forwarded_config_of c)) \<subseteq> set ALLOWED_KEYS"
  by (auto simp: forwarded_config_of_def List.map_filter_def split: option.splits)

lemma forwarded_config_of_values:
  "(k, v) \<in> set (forwarded_config_of c) \<Longrightarrow> inst c k = Some v"
  by (auto simp: forwarded_config_of_def List.map_filter_def split: option.splits)

text \<open>
  C9. \<open>forward_command\<close> with a command that is not \<open>None\<close>, move-to or watch prints the
  refusal and returns: the message is its only event, no session is created and no
  connection opened. With a command among the three it creates the session, connects to
  the configured server and, when the connection is made and the descriptor can be
  written as JSON, sends the descriptor next. The descriptor holds only keys of
  \<open>ALLOWED_KEYS\<close>, each with the value the instance has for it.
\<close>

theorem forward_command_checks_command:
  "(getattr (cfg s) ''command'' = Some command \<and> command \<notin> {PNone, Commands_move_to, Commands_watch}
      \<longrightarrow> forward_command env s =
            (Returned (), s\<lparr>trace := trace s @ [Print (CommandMustBeOneOf ALLOWED_COMMANDS)]\<rparr>))
   \<and> (getattr (cfg s) ''command'' = Some command \<and> command \<in> {PNone, Commands_move_to, Commands_watch}
        \<and> getattr (cfg s) ''server_address'' = Some server_address
        \<and> getattr (cfg s) ''server_port'' = Some server_port
        \<and> ws_connect env server_address server_port (world s) = (Returned ws, w1)
        \<and> serializable (PDict (forwarded_config_of (cfg s)))
      \<longrightarrow> (\<exists>evs. trace (snd (forward_command env s)) =
             trace s @ [NewClientSession, WsConnect server_address server_port,
                        WsSendStr ws (PDict (forwarded_config_of (cfg s)))] @ evs))
   \<and> set (map fst (forwarded_config_of (cfg s))) \<subseteq> {''command'', ''move_to'', ''quiet''}
   \<and> (\<forall>(k, v) \<in> set (forwarded_config_of (cfg s)). inst (cfg s) k = Some v)"
proof (intro conjI impI)
  assume "getattr (cfg s) ''command'' = Some command \<and> command \<notin> {PNone, Commands_move_to, Commands_watch}"
  then show "forward_command env s =
            (Returned (), s\<lparr>trace := trace s @ [Print (CommandMustBeOneOf ALLOWED_COMMANDS)]\<rparr>)"
    by (simp add: forward_command_def seq_def get_attr_def emit_def ALLOWED_COMMANDS_def)
next
  assume a: "getattr (cfg s) ''command'' = Some command \<and> command \<in> {PNone, Commands_move_to, Commands_watch}
        \<and> getattr (cfg s) ''server_address'' = Some server_address
        \<and> getattr (cfg s) ''server_port'' = Some server_port
        \<and> ws_connect env server_address server_port (world s) = (Returned ws, w1)
        \<and> serializable (PDict (forwarded_config_of (cfg s)))"
  let ?d = "PDict (forwarded_config_of (cfg s))"
  let ?rest = "\<lambda>_::unit.
       seq (\<lambda>s1. receive_loop ws (ws_incoming env ws (world s1)) s1) (\<lambda>_.
       seq (ext (WsClose ws) (ws_close env ws)) (\<lambda>_.
       ext SessionClose (session_close env)))"
  let ?s1 = "s\<lparr>world := w1, trace := trace s @ [NewClientSession, WsConnect server_address server_port]\<rparr>"
  have c: "command \<in> set ALLOWED_COMMANDS" using a by (simp add: ALLOWED_COMMANDS_def)
  have eq: "forward_command env s = seq (ext (WsSendStr ws ?d) (ws_send_str env ws ?d)) ?rest ?s1"
    using a c
    by (simp add: forward_command_def Let_def seq_def get_attr_def emit_def ext_def lift_def
          json_dumps_def del: serializable.simps)
  have "extends_trace (?rest u)" for u
    by (intro extends_trace_seq extends_trace_prims extends_trace_receive_incoming)
  then obtain evs where
    "trace (snd (seq (ext (WsSendStr ws ?d) (ws_send_str env ws ?d)) ?rest ?s1))
       = trace ?s1 @ [WsSendStr ws ?d] @ evs"
    using trace_after_ext [of ?rest "WsSendStr ws ?d" "ws_send_str env ws ?d" ?s1] by blast
  then show "\<exists>evs. trace (snd (forward_command env s)) =
             trace s @ [NewClientSession, WsConnect server_address server_port,
                        WsSendStr ws (PDict (forwarded_config_of (cfg s)))] @ evs"
    by (simp add: eq)
next
  show "set (map fst (forwarded_config_of (cfg s))) \<subseteq> {''command'', ''move_to'', ''quiet''}"
    using forwarded_config_of_keys [of "cfg s"] by (simp add: ALLOWED_KEYS_def)
next
  show "\<forall>(k, v) \<in> set (forwarded_config_of (cfg s)). inst (cfg s) k = Some v"
    using forwarded_config_of_values by fastforce
qed

theorem forward_command_checks_command_witness:
  "getattr (cfg (with_attr ''command'' Commands_server state0)) ''command'' = Some Commands_server
   \<and> Commands_server \<notin> {PNone, Commands_move_to, Commands_watch}
   \<and> trace (snd (forward_command env0 (with_attr ''command'' Commands_server state0)))
       = [Print (CommandMustBeOneOf ALLOWED_COMMANDS)]
   \<and> forwarded_config_of (cfg (with_attr ''command'' Commands_move_to
        (with_attr ''move_to'' (PStr ''stand'') state0)))
       = [(''command'', PStr ''move_to''), (''move_to'', PStr ''stand'')]
   \<and> (\<exists>evs. trace (snd (forward_command env0 (with_attr ''command'' Commands_move_to
        (with_attr ''move_to'' (PStr ''stand'') state0)))) =
        [NewClientSession, WsConnect (PStr ''127.0.0.1'') (PInt 9123),
         WsSendStr 1 (PDict [(''command'', PStr ''move_to''), (''move_to'', PStr ''stand'')])] @ evs)"
proof -
  let ?r = "with_attr ''command'' Commands_server state0"
  let ?m = "with_attr ''command'' Commands_move_to (with_attr ''move_to'' (PStr ''stand'') state0)"
  have r1: "getattr (cfg ?r) ''command'' = Some Commands_server"
    by (simp add: with_attr_def getattr_store_attr)
  have r2: "Commands_server \<notin> {PNone, Commands_move_to, Commands_watch}"
    by (simp add: command_defs)
  have m1: "getattr (cfg ?m) ''command'' = Some Commands_move_to"
    by (simp add: with_attr_def getattr_store_attr)
  have m2: "Commands_move_to \<in> {PNone, Commands_move_to, Commands_watch}" by simp
  have m3: "getattr (cfg ?m) ''server_address'' = Some (PStr ''127.0.0.1'')"
    "getattr (cfg ?m) ''server_port'' = Some (PInt 9123)"
    by (simp_all add: fixture_defs getattr_def store_attr_def setattr_def)
  have m4: "ws_connect env0 (PStr ''127.0.0.1'') (PInt 9123) (world ?m) = (Returned 1, False)"
    by (simp add: fixture_defs)
  have m5: "forwarded_config_of (cfg ?m) = [(''command'', PStr ''move_to''), (''move_to'', PStr ''stand'')]"
    by (simp add: forwarded_config_of_def List.map_filter_def ALLOWED_KEYS_def fixture_defs
          command_defs store_attr_def setattr_def)
  have m6: "serializable (PDict (forwarded_config_of (cfg ?m)))"
    by (simp add: m5)
  have t0: "trace ?r = []" "trace ?m = []" by (simp_all add: fixture_defs)
  have R: "trace (snd (forward_command env0 ?r)) = [Print (CommandMustBeOneOf ALLOWED_COMMANDS)]"
    using forward_command_checks_command [of ?r Commands_server env0] r1 r2 by (simp add: t0)
  have M: "\<exists>evs. trace (snd (forward_command env0 ?m)) =
        [NewClientSession, WsConnect (PStr ''127.0.0.1'') (PInt 9123),
         WsSendStr 1 (PDict [(''command'', PStr ''move_to''), (''move_to'', PStr ''stand'')])] @ evs"
    using forward_command_checks_command [of ?m Commands_move_to env0 "PStr ''127.0.0.1''" "PInt 9123" 1 False]
      m1 m2 m3 m4 m6 by (simp add: t0 m5)
  show ?thesis using r1 r2 R m5 M by simp
qed

end
